theory Spec2Isabelle
  imports Main "HOL-Library.AList"
begin

section \<open>Strings as the compliance service uses them\<close>

text \<open>
  JavaScript strings are modelled as \<^typ>\<open>string\<close> (lists of characters); the
  operations below are those the service calls on them. \<open>toLowerCase\<close> maps the
  letters A to Z to a to z and leaves every other character alone.
\<close>

definition lower_char :: "char \<Rightarrow> char" where
  "lower_char c =
     (let n = (of_char c :: nat)
      in if 65 \<le> n \<and> n \<le> 90 then char_of (n + 32) else c)"

definition toLowerCase :: "string \<Rightarrow> string" where
  "toLowerCase s = map lower_char s"

definition startsWith :: "string \<Rightarrow> string \<Rightarrow> bool" where
  "startsWith t s = (take (length s) t = s)"

text \<open>\<open>str_includes t s\<close> is \<open>t.includes(s)\<close>: \<open>s\<close> occurs in \<open>t\<close> as a substring.\<close>

fun str_includes :: "string \<Rightarrow> string \<Rightarrow> bool" where
  "str_includes [] s = (s = [])"
| "str_includes (c # t) s = (startsWith (c # t) s \<or> str_includes t s)"

text \<open>\<open>join sep xs\<close> is \<open>xs.join(sep)\<close>.\<close>

fun join :: "string \<Rightarrow> string list \<Rightarrow> string" where
  "join sep [] = []"
| "join sep [x] = x"
| "join sep (x # y # ys) = x @ sep @ join sep (y # ys)"

text \<open>Decimal rendering of a number inside a template literal.\<close>

definition digit_char :: "nat \<Rightarrow> char" where
  "digit_char d = char_of (48 + d)"

fun string_of_nat :: "nat \<Rightarrow> string" where
  "string_of_nat n =
     (if n < 10 then [digit_char n] else string_of_nat (n div 10) @ [digit_char (n mod 10)])"

declare string_of_nat.simps [simp del]

section \<open>Tenant configuration and send request (read by the compliance service)\<close>

text \<open>
  \<open>restrictedKeywords\<close> and \<open>requiredDisclaimers\<close> are read with
  \<open>list || default\<close>: \<open>None\<close> stands for a value that is \<open>undefined\<close> or
  \<open>null\<close>, \<open>Some xs\<close> for an array, which is truthy also when it is empty.
  The Client schema declares both as \<open>[String]\<close>, so a stored client always has
  \<open>Some xs\<close>, with \<open>Some []\<close> as the default.
\<close>

record complianceSettings =
  ageVerificationRequired :: bool
  consentRequired :: bool
  maxMessagesPerDay :: nat
  restrictedKeywords :: "string list option"
  requiredDisclaimers :: "string list option"

datatype subscription_status = Active | Suspended | Cancelled | Trial

datatype compliance_status = Compliant | Warning | Violation | ComplianceSuspended

datatype provider = Twilio | Bandwidth | Messagebird | Custom

text \<open>
  The credentials the three provider functions read from
  \<open>client.mmsSettings.apiCredentials\<close>; \<open>None\<close> is \<open>undefined\<close>.
\<close>

record apiCredentials =
  accountSid :: "string option"
  authToken :: "string option"
  fromNumber :: "string option"
  accountId :: "string option"
  username :: "string option"
  password :: "string option"
  apiKey :: "string option"

record mmsSettings =
  provider :: "provider option"
  apiCredentials :: apiCredentials

record subscription =
  sub_status :: subscription_status
  messagesUsed :: nat
  messagesLimit :: nat

record client =
  complianceSettings :: complianceSettings
  mmsSettings :: mmsSettings
  subscription :: subscription
  isActive :: bool
  complianceStatus :: compliance_status

record recipient =
  phoneNumber :: string
  ageVerified :: bool
  consentGiven :: bool
  consentDate :: "nat option"
  optOutStatus :: bool

text \<open>\<open>media_size\<close> is the item's \<open>size\<close> in bytes.\<close>

record media_item =
  url :: string
  media_size :: nat
  mimeType :: string

text \<open>\<open>msg_text\<close> is \<open>content.text\<close>, \<open>None\<close> when the request has no text.\<close>

record content =
  msg_text :: "string option"
  media :: "media_item list"
  templateId :: "nat option"

section \<open>ComplianceService\<close>

definition default_restrictedKeywords :: "string list" where
  "default_restrictedKeywords =
     [''marijuana'', ''cannabis'', ''weed'', ''pot'', ''smoke'', ''smoking'', ''vape'',
      ''vaping'', ''e-cigarette'', ''nicotine'', ''tobacco'', ''high'', ''stoned'',
      ''baked'', ''blazed'', ''dank'', ''kush'', ''thc'', ''cbd'', ''hemp'', ''edibles'',
      ''concentrates'', ''bong'', ''pipe'', ''joint'', ''blunt'', ''dab'', ''wax'',
      ''sativa'', ''indica'', ''hybrid'', ''strain'']"

definition default_requiredDisclaimers :: "string list" where
  "default_requiredDisclaimers =
     [''For adults 21+ only'', ''Consume responsibly'', ''Not for sale to minors'',
      ''Check local laws'', ''This product is not approved by the FDA'']"

text \<open>\<open>a || b\<close> on a possibly missing array.\<close>

definition or_default :: "'a list option \<Rightarrow> 'a list \<Rightarrow> 'a list" where
  "or_default v d = (case v of None \<Rightarrow> d | Some xs \<Rightarrow> xs)"

text \<open>\<open>content.text?.toLowerCase() || ""\<close>.\<close>

definition lowered_text :: "content \<Rightarrow> string" where
  "lowered_text c = (case msg_text c of None \<Rightarrow> [] | Some t \<Rightarrow> toLowerCase t)"

record verification =
  verified :: bool
  verified_method :: "string option"
  timestamp :: "nat option"

definition verifyAge :: "nat \<Rightarrow> recipient \<Rightarrow> client \<Rightarrow> verification" where
  "verifyAge now r cl =
     (if \<not> ageVerificationRequired (complianceSettings cl)
      then \<lparr>verified = True, verified_method = None, timestamp = None\<rparr>
      else if ageVerified r
      then \<lparr>verified = True, verified_method = None, timestamp = None\<rparr>
      else \<lparr>verified = (ageVerified r \<or> False), verified_method = Some ''self_declaration'',
             timestamp = Some now\<rparr>)"

definition verifyConsent :: "nat \<Rightarrow> recipient \<Rightarrow> client \<Rightarrow> verification" where
  "verifyConsent now r cl =
     (if \<not> consentRequired (complianceSettings cl)
      then \<lparr>verified = True, verified_method = None, timestamp = None\<rparr>
      else if consentGiven r
      then \<lparr>verified = True, verified_method = None, timestamp = None\<rparr>
      else \<lparr>verified = (consentGiven r \<or> False), verified_method = Some ''explicit_consent'',
             timestamp = Some (case consentDate r of None \<Rightarrow> now | Some d \<Rightarrow> d)\<rparr>)"

text \<open>The outcome of one sub-check: \<open>{approved: true}\<close> or \<open>{approved: false, reason}\<close>.\<close>

datatype check = Approved | Rejected string

text \<open>
  Each regular expression of \<open>inappropriatePatterns\<close> is an alternation of plain
  words, tested against the lower-cased text: it matches when one of its words occurs.
\<close>

definition inappropriatePatterns :: "string list list" where
  "inappropriatePatterns =
     [[''underage'', ''minor'', ''child''], [''illegal'', ''unlawful''],
      [''addiction'', ''addict'']]"

definition pattern_test :: "string list \<Rightarrow> string \<Rightarrow> bool" where
  "pattern_test alts t = list_ex (\<lambda>w. str_includes t w) alts"

fun inappropriate_loop :: "string list list \<Rightarrow> string \<Rightarrow> check" where
  "inappropriate_loop [] t = Approved"
| "inappropriate_loop (p # ps) t =
     (if pattern_test p t then Rejected ''Content contains inappropriate language''
      else inappropriate_loop ps t)"

definition checkInappropriateContent :: "string \<Rightarrow> check" where
  "checkInappropriateContent t = inappropriate_loop inappropriatePatterns t"

definition allowedTypes :: "string list" where
  "allowedTypes = [''image/jpeg'', ''image/png'', ''image/gif'', ''video/mp4'', ''audio/mp3'']"

definition maxSize :: nat where
  "maxSize = 5 * 1024 * 1024"

fun checkMediaContent :: "media_item list \<Rightarrow> check" where
  "checkMediaContent [] = Approved"
| "checkMediaContent (m # ms) =
     (if mimeType m \<notin> set allowedTypes
      then Rejected (''Unsupported media type: '' @ mimeType m)
      else if media_size m > maxSize
      then Rejected (''Media file too large: '' @ string_of_nat (media_size m) @ '' bytes'')
      else checkMediaContent ms)"

record screening =
  screened :: bool
  approved :: bool
  reason :: string
  flaggedKeywords :: "string list"
  suggestedChanges :: "string list"

text \<open>
  \<open>screenContent\<close> runs its four checks one after the other on the same \<open>results\<close>
  object; each failing check assigns \<open>approved\<close> and \<open>reason\<close>.
\<close>

definition screen_keywords :: "string \<Rightarrow> client \<Rightarrow> screening \<Rightarrow> screening" where
  "screen_keywords t cl res =
     (let restricted = or_default (restrictedKeywords (complianceSettings cl)) default_restrictedKeywords;
          foundKeywords = filter (\<lambda>keyword. str_includes t (toLowerCase keyword)) restricted
      in if length foundKeywords > 0
         then res\<lparr>approved := False, flaggedKeywords := foundKeywords,
                  reason := ''Content contains restricted keywords: '' @ join '', '' foundKeywords\<rparr>
         else res)"

definition screen_inappropriate :: "string \<Rightarrow> screening \<Rightarrow> screening" where
  "screen_inappropriate t res =
     (case checkInappropriateContent t of
        Approved \<Rightarrow> res
      | Rejected r \<Rightarrow> res\<lparr>approved := False, reason := r\<rparr>)"

definition screen_media :: "content \<Rightarrow> screening \<Rightarrow> screening" where
  "screen_media c res =
     (if length (media c) > 0
      then (case checkMediaContent (media c) of
              Approved \<Rightarrow> res
            | Rejected r \<Rightarrow> res\<lparr>approved := False, reason := r\<rparr>)
      else res)"

definition screen_length :: "string \<Rightarrow> screening \<Rightarrow> screening" where
  "screen_length t res =
     (if length t > 1600
      then res\<lparr>approved := False, reason := ''Message exceeds character limit''\<rparr>
      else res)"

definition screenContent :: "content \<Rightarrow> client \<Rightarrow> screening" where
  "screenContent c cl =
     (let results = \<lparr>screened = True, approved = True, reason = [], flaggedKeywords = [],
                      suggestedChanges = []\<rparr>;
          t = lowered_text c
      in screen_length t (screen_media c (screen_inappropriate t (screen_keywords t cl results))))"

record disclaimer_check =
  included :: bool
  found :: "string list"
  missing :: "string list"

definition checkDisclaimers :: "content \<Rightarrow> client \<Rightarrow> disclaimer_check" where
  "checkDisclaimers c cl =
     (let required = or_default (requiredDisclaimers (complianceSettings cl)) default_requiredDisclaimers;
          t = lowered_text c;
          includedDisclaimers = filter (\<lambda>disclaimer. str_includes t (toLowerCase disclaimer)) required
      in \<lparr>included = length includedDisclaimers > 0,
          found = includedDisclaimers,
          missing = filter (\<lambda>d. d \<notin> set includedDisclaimers) required\<rparr>)"

record hours_check =
  hours_allowed :: bool
  businessHours :: string

text \<open>\<open>hour\<close> is \<open>new Date().getHours()\<close> at the time of the call.\<close>

definition checkBusinessHours :: "nat \<Rightarrow> client \<Rightarrow> hours_check" where
  "checkBusinessHours hour cl =
     (let businessStart = 9; businessEnd = 21
      in \<lparr>hours_allowed = (hour \<ge> businessStart \<and> hour < businessEnd),
          businessHours = string_of_nat businessStart @ '':00 - '' @ string_of_nat businessEnd @ '':00''\<rparr>)"

record rate_check =
  rate_allowed :: bool
  limit :: nat
  used :: nat
  remaining :: nat

text \<open>\<open>maxMessagesPerDay || 5\<close>: the number 0 is falsy.\<close>

definition checkRateLimit :: "recipient \<Rightarrow> client \<Rightarrow> rate_check" where
  "checkRateLimit r cl =
     (let maxPerDay = (if maxMessagesPerDay (complianceSettings cl) = 0 then 5
                       else maxMessagesPerDay (complianceSettings cl))
      in \<lparr>rate_allowed = True, limit = maxPerDay, used = 0, remaining = maxPerDay\<rparr>)"

text \<open>
  The verdict \<open>results\<close> of \<open>checkMessageCompliance\<close>. Its fields
  \<open>ageVerified\<close> to \<open>screeningResults\<close> carry the prefix \<open>v_\<close> here.
  \<open>v_screeningResults\<close> is assigned \<open>contentCheck.results\<close>, a property that
  the object returned by \<open>screenContent\<close> does not have: the value is always
  \<open>undefined\<close>, \<open>None\<close>; the initial \<open>{}\<close> is \<open>Some []\<close>.
\<close>

record verdict =
  passed :: bool
  v_ageVerified :: bool
  v_consentVerified :: bool
  v_contentScreened :: bool
  v_disclaimersIncluded :: bool
  details :: "string list"
  v_screeningResults :: "string list option"

text \<open>\<open>results.passed = false; results.details.push(r)\<close>.\<close>

definition fail_with :: "string \<Rightarrow> verdict \<Rightarrow> verdict" where
  "fail_with r v = v\<lparr>passed := False, details := details v @ [r]\<rparr>"

text \<open>
  The condition of the disclaimer step,
  \<open>!disclaimerCheck.included && client.complianceSettings.requiredDisclaimers.length > 0\<close>:
  when the first operand is false the second is not evaluated; otherwise reading
  \<open>length\<close> of a missing list throws a TypeError, whose message is \<open>Inl\<close>.
\<close>

definition length_of_undefined :: string where
  "length_of_undefined = ''Cannot read properties of undefined (reading length)''"

definition disclaimers_missing :: "disclaimer_check \<Rightarrow> client \<Rightarrow> string + bool" where
  "disclaimers_missing dc cl =
     (if included dc then Inr False
      else case requiredDisclaimers (complianceSettings cl) of
             None \<Rightarrow> Inl length_of_undefined
           | Some ds \<Rightarrow> Inr (length ds > 0))"

text \<open>The object the \<open>catch\<close> block returns.\<close>

definition compliance_error :: "string \<Rightarrow> verdict" where
  "compliance_error msg =
     \<lparr>passed = False, v_ageVerified = False, v_consentVerified = False,
      v_contentScreened = False, v_disclaimersIncluded = False,
      details = [''Compliance check failed: '' @ msg], v_screeningResults = Some []\<rparr>"

definition step_age :: "nat \<Rightarrow> recipient \<Rightarrow> client \<Rightarrow> verdict \<Rightarrow> verdict" where
  "step_age now r cl results =
     (let ageCheck = verifyAge now r cl;
          results1 = results\<lparr>v_ageVerified := verified ageCheck\<rparr>
      in if \<not> verified ageCheck then fail_with ''Age verification required'' results1
         else results1)"

definition step_consent :: "nat \<Rightarrow> recipient \<Rightarrow> client \<Rightarrow> verdict \<Rightarrow> verdict" where
  "step_consent now r cl results =
     (let consentCheck = verifyConsent now r cl;
          results1 = results\<lparr>v_consentVerified := verified consentCheck\<rparr>
      in if \<not> verified consentCheck then fail_with ''Consent verification required'' results1
         else results1)"

definition step_content :: "content \<Rightarrow> client \<Rightarrow> verdict \<Rightarrow> verdict" where
  "step_content c cl results =
     (let contentCheck = screenContent c cl;
          results1 = results\<lparr>v_contentScreened := screened contentCheck,
                             v_screeningResults := None\<rparr>
      in if \<not> approved contentCheck
         then fail_with (''Content failed screening: '' @ reason contentCheck) results1
         else results1)"

definition step_disclaimers :: "content \<Rightarrow> client \<Rightarrow> verdict \<Rightarrow> string + verdict" where
  "step_disclaimers c cl results =
     (let disclaimerCheck = checkDisclaimers c cl;
          results1 = results\<lparr>v_disclaimersIncluded := included disclaimerCheck\<rparr>
      in case disclaimers_missing disclaimerCheck cl of
           Inl e \<Rightarrow> Inl e
         | Inr True \<Rightarrow> Inr (fail_with ''Required disclaimers missing'' results1)
         | Inr False \<Rightarrow> Inr results1)"

definition step_hours :: "nat \<Rightarrow> client \<Rightarrow> verdict \<Rightarrow> verdict" where
  "step_hours hour cl results =
     (if \<not> hours_allowed (checkBusinessHours hour cl)
      then fail_with ''Messages not allowed outside business hours'' results
      else results)"

definition step_rate :: "recipient \<Rightarrow> client \<Rightarrow> verdict \<Rightarrow> verdict" where
  "step_rate r cl results =
     (if \<not> rate_allowed (checkRateLimit r cl)
      then fail_with ''Rate limit exceeded for recipient'' results
      else results)"

text \<open>
  \<open>checkMessageCompliance({client, recipient, content})\<close>; \<open>now\<close> and
  \<open>hour\<close> are the clock readings of the call.
\<close>

definition checkMessageCompliance :: "nat \<Rightarrow> nat \<Rightarrow> client \<Rightarrow> recipient \<Rightarrow> content \<Rightarrow> verdict" where
  "checkMessageCompliance now hour cl r c =
     (let results = \<lparr>passed = True, v_ageVerified = False, v_consentVerified = False,
                      v_contentScreened = False, v_disclaimersIncluded = False,
                      details = [], v_screeningResults = Some []\<rparr>
      in case step_disclaimers c cl (step_content c cl (step_consent now r cl (step_age now r cl results))) of
           Inl e \<Rightarrow> compliance_error e
         | Inr results4 \<Rightarrow> step_rate r cl (step_hours hour cl results4))"

section \<open>Message model\<close>

datatype delivery_status = Pending | Sent | Delivered | Failed | Undelivered

text \<open>Dates are numbers (milliseconds); \<open>None\<close> is an unset field.\<close>

record delivery =
  status :: delivery_status
  providerMessageId :: "string option"
  providerResponse :: "string option"
  sentAt :: "nat option"
  deliveredAt :: "nat option"
  failureReason :: "string option"
  retryCount :: nat
  maxRetries :: nat

record compliance =
  ageVerificationPassed :: bool
  consentVerified :: bool
  contentScreened :: bool
  disclaimersIncluded :: bool
  screeningResults :: "string list option"

record scheduling =
  scheduledFor :: "nat option"
  isScheduled :: bool

text \<open>
  The fields of a message that the routes and the services read or write; the
  \<open>campaign\<close>, \<open>cost\<close> and \<open>metadata\<close> sub-documents, the recipient's
  \<open>name\<close> and \<open>email\<close>, and the \<open>createdAt\<close> and \<open>updatedAt\<close> that
  the schema's \<open>timestamps\<close> option keeps are left out.
\<close>

record message =
  clientId :: nat
  userId :: nat
  recipient :: recipient
  content :: content
  delivery :: delivery
  compliance :: compliance
  scheduling :: scheduling

text \<open>The schema's defaults for the \<open>delivery\<close> sub-document.\<close>

definition default_delivery :: delivery where
  "default_delivery =
     \<lparr>status = Pending, providerMessageId = None, providerResponse = None, sentAt = None,
      deliveredAt = None, failureReason = None, retryCount = 0, maxRetries = 3\<rparr>"

text \<open>
  The validator of \<open>recipient.phoneNumber\<close>, and \<open>phoneRegex\<close> of the MMS service:
  \<open>/^\+?[1-9]\d{1,14}$/\<close>.
\<close>

definition is_digit :: "char \<Rightarrow> bool" where
  "is_digit c = (let n = (of_char c :: nat) in 48 \<le> n \<and> n \<le> 57)"

definition phone_regex :: "string \<Rightarrow> bool" where
  "phone_regex v =
     (let ds = (if startsWith v ''+'' then drop 1 v else v)
      in case ds of
           [] \<Rightarrow> False
         | c # cs \<Rightarrow> is_digit c \<and> c \<noteq> CHR ''0'' \<and> 1 \<le> length cs \<and> length cs \<le> 14
                     \<and> list_all is_digit cs)"

text \<open>
  What \<open>additionalData\<close> holds at the call sites of \<open>updateDeliveryStatus\<close>: a list of
  keys with their values; a key whose value is \<open>undefined\<close> is present with \<open>None\<close>.
\<close>

datatype delivery_update =
    ProviderMessageId "string option"
  | ProviderResponse "string option"
  | FailureReason "string option"

fun assign_field :: "delivery \<Rightarrow> delivery_update \<Rightarrow> delivery" where
  "assign_field d (ProviderMessageId v) = d\<lparr>providerMessageId := v\<rparr>"
| "assign_field d (ProviderResponse v) = d\<lparr>providerResponse := v\<rparr>"
| "assign_field d (FailureReason v) = d\<lparr>failureReason := v\<rparr>"

definition object_assign :: "delivery \<Rightarrow> delivery_update list \<Rightarrow> delivery" where
  "object_assign d additionalData = foldl assign_field d additionalData"

text \<open>
  The \<open>pre("save")\<close> middleware: \<open>None\<close> when it calls \<open>next()\<close>, \<open>Some msg\<close> when
  it calls \<open>next(new Error(msg))\<close> and the save is rejected.
\<close>

definition pre_save :: "message \<Rightarrow> string option" where
  "pre_save m =
     (if status (delivery m) = Pending \<and> \<not> ageVerificationPassed (compliance m)
      then Some ''Age verification required before sending message''
      else if status (delivery m) = Pending \<and> \<not> consentVerified (compliance m)
      then Some ''Consent verification required before sending message''
      else None)"

text \<open>
  A method that ends in \<open>return this.save()\<close> is modelled by the document as the method
  leaves it in memory, paired with the answer of the save middleware for it.
\<close>

definition updateDeliveryStatus ::
  "delivery_status \<Rightarrow> delivery_update list \<Rightarrow> nat \<Rightarrow> message \<Rightarrow> message \<times> string option" where
  "updateDeliveryStatus new_status additionalData now m =
     (let d0 = (delivery m)\<lparr>status := new_status\<rparr>;
          d1 = (if new_status = Sent then d0\<lparr>sentAt := Some now\<rparr>
                else if new_status = Delivered then d0\<lparr>deliveredAt := Some now\<rparr>
                else d0);
          d2 = object_assign d1 additionalData;
          m' = m\<lparr>delivery := d2\<rparr>
      in (m', pre_save m'))"

definition canRetry :: "message \<Rightarrow> bool" where
  "canRetry m = (retryCount (delivery m) < maxRetries (delivery m) \<and> status (delivery m) = Failed)"

definition incrementRetry :: "message \<Rightarrow> message \<times> string option" where
  "incrementRetry m =
     (let m' = m\<lparr>delivery := (delivery m)\<lparr>retryCount := retryCount (delivery m) + 1\<rparr>\<rparr>
      in (m', pre_save m'))"

section \<open>Client model\<close>

definition canSendMessage :: "client \<Rightarrow> bool" where
  "canSendMessage cl =
     (let active = (isActive cl \<and> sub_status (subscription cl) = Active);
          withinLimits = (messagesUsed (subscription cl) < messagesLimit (subscription cl));
          compliant = (complianceStatus cl = Compliant)
      in active \<and> withinLimits \<and> compliant)"

definition incrementMessageCount :: "client \<Rightarrow> client" where
  "incrementMessageCount cl =
     cl\<lparr>subscription := (subscription cl)\<lparr>messagesUsed := messagesUsed (subscription cl) + 1\<rparr>\<rparr>"

section \<open>MMSService\<close>

text \<open>
  The request a provider function hands to its backend. \<open>md_from\<close>, \<open>md_to\<close>,
  \<open>md_body\<close> and \<open>md_media\<close> are \<open>from\<close>/\<open>to\<close>/\<open>body\<close>/\<open>mediaUrl\<close> for Twilio
  (\<open>mediaUrl\<close> is set only when there is media), \<open>from\<close>/\<open>to\<close>/\<open>text\<close>/\<open>media\<close>
  for Bandwidth and \<open>originator\<close>/\<open>recipients\<close> (a one-element list)/\<open>body\<close>/\<open>mediaUrls\<close>
  for MessageBird.
\<close>

record messageData =
  md_from :: string
  md_to :: string
  md_body :: "string option"
  md_media :: "string list option"

datatype provider_request =
    TwilioCreate string string messageData
  | BandwidthPost string string string messageData
  | MessagebirdPost string messageData

text \<open>
  The backend is a parameter: it answers a request with \<open>Inl\<close> the message of the
  error it throws, or \<open>Inr\<close> the id and the raw response.
\<close>

type_synonym transport = "provider_request \<Rightarrow> string + (string \<times> string)"

record send_result =
  messageId :: string
  sr_response :: string
  sr_provider :: string

text \<open>\<open>!v\<close> for a credential: \<open>undefined\<close> and the empty string are falsy.\<close>

definition falsy :: "string option \<Rightarrow> bool" where
  "falsy v = (case v of None \<Rightarrow> True | Some x \<Rightarrow> x = [])"

definition str_of :: "string option \<Rightarrow> string" where
  "str_of v = (case v of None \<Rightarrow> [] | Some x \<Rightarrow> x)"

definition twilioProvider :: "transport \<Rightarrow> message \<Rightarrow> client \<Rightarrow> string + send_result" where
  "twilioProvider backend m cl =
     (let creds = apiCredentials (mmsSettings cl)
      in if falsy (accountSid creds) \<or> falsy (authToken creds) \<or> falsy (fromNumber creds)
         then Inl ''Twilio credentials not configured''
         else
           let data = \<lparr>md_from = str_of (fromNumber creds),
                       md_to = phoneNumber (recipient m),
                       md_body = msg_text (content m),
                       md_media = (if length (media (content m)) > 0
                                   then Some (map url (media (content m))) else None)\<rparr>
           in case backend (TwilioCreate (str_of (accountSid creds)) (str_of (authToken creds)) data) of
                Inl err \<Rightarrow> Inl (''Twilio error: '' @ err)
              | Inr (sid, raw) \<Rightarrow>
                  Inr \<lparr>messageId = sid, sr_response = raw, sr_provider = ''twilio''\<rparr>)"

definition bandwidthProvider :: "transport \<Rightarrow> message \<Rightarrow> client \<Rightarrow> string + send_result" where
  "bandwidthProvider backend m cl =
     (let creds = apiCredentials (mmsSettings cl)
      in if falsy (accountId creds) \<or> falsy (username creds) \<or> falsy (password creds)
            \<or> falsy (fromNumber creds)
         then Inl ''Bandwidth credentials not configured''
         else
           let data = \<lparr>md_from = str_of (fromNumber creds),
                       md_to = phoneNumber (recipient m),
                       md_body = msg_text (content m),
                       md_media = Some (map url (media (content m)))\<rparr>
           in case backend (BandwidthPost (str_of (accountId creds)) (str_of (username creds))
                              (str_of (password creds)) data) of
                Inl err \<Rightarrow> Inl (''Bandwidth error: '' @ err)
              | Inr (rid, raw) \<Rightarrow>
                  Inr \<lparr>messageId = rid, sr_response = raw, sr_provider = ''bandwidth''\<rparr>)"

definition messagebirdProvider :: "transport \<Rightarrow> message \<Rightarrow> client \<Rightarrow> string + send_result" where
  "messagebirdProvider backend m cl =
     (let creds = apiCredentials (mmsSettings cl)
      in if falsy (apiKey creds) \<or> falsy (fromNumber creds)
         then Inl ''MessageBird credentials not configured''
         else
           let data = \<lparr>md_from = str_of (fromNumber creds),
                       md_to = phoneNumber (recipient m),
                       md_body = msg_text (content m),
                       md_media = Some (map url (media (content m)))\<rparr>
           in case backend (MessagebirdPost (str_of (apiKey creds)) data) of
                Inl err \<Rightarrow> Inl (''MessageBird error: '' @ err)
              | Inr (rid, raw) \<Rightarrow>
                  Inr \<lparr>messageId = rid, sr_response = raw, sr_provider = ''messagebird''\<rparr>)"

text \<open>
  \<open>sendMessage\<close>: the provider defaults to Twilio; \<open>custom\<close>, the fourth value of the
  schema's enum, has no entry in \<open>this.providers\<close>.
\<close>

definition sendMessage :: "transport \<Rightarrow> message \<Rightarrow> client \<Rightarrow> string + send_result" where
  "sendMessage backend m cl =
     (case (case provider (mmsSettings cl) of None \<Rightarrow> Twilio | Some p \<Rightarrow> p) of
        Twilio \<Rightarrow> twilioProvider backend m cl
      | Bandwidth \<Rightarrow> bandwidthProvider backend m cl
      | Messagebird \<Rightarrow> messagebirdProvider backend m cl
      | Custom \<Rightarrow> Inl ''Unsupported MMS provider: custom'')"

definition validatePhoneNumber :: "string \<Rightarrow> bool" where
  "validatePhoneNumber p = phone_regex p"

text \<open>\<open>formatPhoneNumber(phoneNumber, provider)\<close>; \<open>Inl\<close> is the error it throws.\<close>

definition formatPhoneNumber :: "string \<Rightarrow> provider \<Rightarrow> string + string" where
  "formatPhoneNumber p prov =
     (if \<not> validatePhoneNumber p then Inl ''Invalid phone number format''
      else if \<not> startsWith p ''+''
      then (if length p = 10 then Inr (''+1'' @ p) else Inr (''+'' @ p))
      else Inr p)"

section \<open>The message routes\<close>

text \<open>
  The two collections the routes read and write, as association lists from document id
  to document.
\<close>

record db =
  messages :: "(nat \<times> message) list"
  clients :: "(nat \<times> client) list"

text \<open>\<open>res.status(code).json({...})\<close>: the status code and the fields of the body.\<close>

datatype jvalue = S string | N nat | L "string list" | D "nat option"

datatype response = Response nat "(string \<times> jvalue) list"

definition server_error :: response where
  "server_error = Response 500 [(''message'', S ''Server error'')]"

text \<open>
  What the Template collaborator answers for the template and the variables of one
  request: the owner, the result of \<open>validateVariables\<close>, the rendered text and media,
  and the error of \<open>incrementUsage\<close>'s save, if any.
\<close>

record template_answer =
  tpl_clientId :: nat
  tpl_isValid :: bool
  tpl_errors :: "string list"
  tpl_text :: "string option"
  tpl_media :: "media_item list"
  tpl_usage_error :: "string option"

text \<open>
  What a request handler reads from outside the two collections: the clock, the id of
  the document it creates, the provider backend and the Template collaborator.
\<close>

record env =
  env_now :: nat
  env_hour :: nat
  env_new_id :: nat
  env_backend :: transport
  env_findTemplate :: "nat \<Rightarrow> template_answer option"

text \<open>
  The body of \<open>POST /send\<close> after authentication: \<open>req_valid\<close> and \<open>req_errors\<close> are
  the outcome of the express validators, \<open>req_clientId\<close> and \<open>req_userId\<close> come from
  \<open>req.user\<close>. The \<open>campaign\<close> field is left out.
\<close>

record send_request =
  req_valid :: bool
  req_errors :: "string list"
  req_clientId :: nat
  req_userId :: nat
  req_recipient :: recipient
  req_content :: content
  req_scheduling :: "scheduling option"

text \<open>A save of a loaded document: rejected by the middleware, or written under its id.\<close>

definition persist :: "nat \<Rightarrow> message \<times> string option \<Rightarrow> db \<Rightarrow> string + db" where
  "persist mid r st =
     (case snd r of
        Some err \<Rightarrow> Inl err
      | None \<Rightarrow> Inr (st\<lparr>messages := AList.update mid (fst r) (messages st)\<rparr>))"

text \<open>
  The first save of a new document: the schema validates the phone number, the
  middleware runs, and the document is inserted under an id that must be new.
\<close>

definition save_new :: "nat \<Rightarrow> message \<Rightarrow> db \<Rightarrow> string + db" where
  "save_new mid m st =
     (if \<not> phone_regex (phoneNumber (recipient m)) then Inl ''Invalid phone number format''
      else case pre_save m of
             Some err \<Rightarrow> Inl err
           | None \<Rightarrow>
               if map_of (messages st) mid \<noteq> None then Inl ''duplicate key''
               else Inr (st\<lparr>messages := messages st @ [(mid, m)]\<rparr>))"

text \<open>\<open>Message.findOne\<close> for a recipient with \<open>optOutStatus\<close> set.\<close>

definition opted_out :: "(nat \<times> message) list \<Rightarrow> string \<Rightarrow> bool" where
  "opted_out ms p =
     list_ex (\<lambda>(i, m). phoneNumber (recipient m) = p \<and> optOutStatus (recipient m)) ms"

definition resolve_content :: "env \<Rightarrow> send_request \<Rightarrow> response + content" where
  "resolve_content e rq =
     (case templateId (req_content rq) of
        None \<Rightarrow> Inr (req_content rq)
      | Some tid \<Rightarrow>
          (case env_findTemplate e tid of
             None \<Rightarrow> Inl (Response 404 [(''message'', S ''Template not found'')])
           | Some t \<Rightarrow>
               if tpl_clientId t \<noteq> req_clientId rq
               then Inl (Response 404 [(''message'', S ''Template not found'')])
               else if \<not> tpl_isValid t
               then Inl (Response 400 [(''message'', S ''Template validation failed''),
                                       (''errors'', L (tpl_errors t))])
               else (case tpl_usage_error t of
                       Some err \<Rightarrow> Inl server_error
                     | None \<Rightarrow>
                         Inr \<lparr>msg_text = tpl_text t, media = tpl_media t,
                              templateId = Some tid\<rparr>)))"

text \<open>\<open>new Message({...})\<close> of the send route, with the schema's defaults.\<close>

definition new_Message :: "send_request \<Rightarrow> content \<Rightarrow> verdict \<Rightarrow> message" where
  "new_Message rq messageContent complianceResult =
     \<lparr>clientId = req_clientId rq,
      userId = req_userId rq,
      recipient = (req_recipient rq)\<lparr>ageVerified := v_ageVerified complianceResult,
                                      consentGiven := v_consentVerified complianceResult\<rparr>,
      content = messageContent,
      delivery = default_delivery,
      compliance = \<lparr>ageVerificationPassed = v_ageVerified complianceResult,
                    consentVerified = v_consentVerified complianceResult,
                    contentScreened = v_contentScreened complianceResult,
                    disclaimersIncluded = v_disclaimersIncluded complianceResult,
                    screeningResults = v_screeningResults complianceResult\<rparr>,
      scheduling = (case req_scheduling rq of
                      None \<Rightarrow> \<lparr>scheduledFor = None, isScheduled = False\<rparr>
                    | Some sch \<Rightarrow> sch)\<rparr>"

text \<open>
  The \<open>try\<close> block shared by the send and the retry route: send, mark the message
  sent, count the message on the client. \<open>Inl\<close> carries the error's message and the
  document as the block left it in memory. The socket notification that follows the
  count is left out.
\<close>

definition attempt_send ::
  "env \<Rightarrow> nat \<Rightarrow> message \<Rightarrow> nat \<Rightarrow> client \<Rightarrow> db \<Rightarrow> (string \<times> message \<times> db) + (send_result \<times> db)" where
  "attempt_send e mid m cid cl st =
     (case sendMessage (env_backend e) m cl of
        Inl err \<Rightarrow> Inl (err, m, st)
      | Inr sendResult \<Rightarrow>
          let r = updateDeliveryStatus Sent
                    [ProviderMessageId (Some (messageId sendResult)),
                     ProviderResponse (Some (sr_response sendResult))] (env_now e) m
          in case persist mid r st of
               Inl err \<Rightarrow> Inl (err, fst r, st)
             | Inr st1 \<Rightarrow>
                 Inr (sendResult,
                      st1\<lparr>clients := AList.update cid (incrementMessageCount cl) (clients st1)\<rparr>))"

text \<open>The \<open>catch (sendError)\<close> block: mark the message failed with the error's message.\<close>

definition record_failure :: "env \<Rightarrow> nat \<Rightarrow> string \<Rightarrow> message \<Rightarrow> db \<Rightarrow> string + db" where
  "record_failure e mid err m st =
     persist mid (updateDeliveryStatus Failed [FailureReason (Some err)] (env_now e) m) st"

definition dispatch ::
  "string \<Rightarrow> (string \<times> jvalue) list \<Rightarrow> string \<Rightarrow> env \<Rightarrow> nat \<Rightarrow> message \<Rightarrow> nat \<Rightarrow> client \<Rightarrow> db
     \<Rightarrow> response \<times> db" where
  "dispatch ok_message ok_fields failed_message e mid m cid cl st =
     (case attempt_send e mid m cid cl st of
        Inr (sendResult, st2) \<Rightarrow>
          (Response 200 ([(''message'', S ok_message)] @ ok_fields @
                         [(''status'', S ''sent''),
                          (''providerMessageId'', S (messageId sendResult))]), st2)
      | Inl (err, m1, st2) \<Rightarrow>
          (case record_failure e mid err m1 st2 of
             Inl err2 \<Rightarrow> (server_error, st2)
           | Inr st3 \<Rightarrow>
               (Response 500 [(''message'', S failed_message), (''error'', S err)], st3)))"

definition send_route :: "env \<Rightarrow> send_request \<Rightarrow> db \<Rightarrow> response \<times> db" where
  "send_route e rq st =
     (if \<not> req_valid rq then (Response 400 [(''errors'', L (req_errors rq))], st)
      else case map_of (clients st) (req_clientId rq) of
        None \<Rightarrow> (Response 404 [(''message'', S ''Client not found'')], st)
      | Some cl \<Rightarrow>
          if \<not> canSendMessage cl
          then (Response 403 [(''message'',
                  S ''Client cannot send messages. Check subscription status and compliance.'')], st)
          else if opted_out (messages st) (phoneNumber (req_recipient rq))
          then (Response 400 [(''message'', S ''Recipient has opted out of messages'')], st)
          else case resolve_content e rq of
            Inl resp \<Rightarrow> (resp, st)
          | Inr messageContent \<Rightarrow>
              let complianceResult =
                    checkMessageCompliance (env_now e) (env_hour e) cl (req_recipient rq) messageContent
              in if \<not> passed complianceResult
                 then (Response 400 [(''message'', S ''Message failed compliance check''),
                                     (''details'', L (details complianceResult))], st)
                 else
                   let m = new_Message rq messageContent complianceResult
                   in case save_new (env_new_id e) m st of
                        Inl err \<Rightarrow> (server_error, st)
                      | Inr st1 \<Rightarrow>
                          if \<not> (case req_scheduling rq of None \<Rightarrow> False | Some sch \<Rightarrow> isScheduled sch)
                          then dispatch ''Message sent successfully''
                                 [(''messageId'', N (env_new_id e))] ''Failed to send message''
                                 e (env_new_id e) m (req_clientId rq) cl st1
                          else (Response 200 [(''message'', S ''Message scheduled successfully''),
                                              (''messageId'', N (env_new_id e)),
                                              (''status'', S ''scheduled''),
                                              (''scheduledFor'',
                                               D (case req_scheduling rq of None \<Rightarrow> None
                                                  | Some sch \<Rightarrow> scheduledFor sch))], st1))"

text \<open>\<open>Message.findOne({_id: messageId, clientId})\<close>.\<close>

definition find_message :: "nat \<Rightarrow> nat \<Rightarrow> db \<Rightarrow> message option" where
  "find_message mid cid st =
     (case map_of (messages st) mid of
        None \<Rightarrow> None
      | Some m \<Rightarrow> if clientId m = cid then Some m else None)"

text \<open>
  \<open>POST /:messageId/retry\<close>. A client that is not found makes
  \<open>client.canSendMessage()\<close> throw, which the outer \<open>catch\<close> answers.
\<close>

definition retry_route :: "env \<Rightarrow> nat \<Rightarrow> nat \<Rightarrow> db \<Rightarrow> response \<times> db" where
  "retry_route e mid cid st =
     (case find_message mid cid st of
        None \<Rightarrow> (Response 404 [(''message'', S ''Message not found'')], st)
      | Some m \<Rightarrow>
          if \<not> canRetry m
          then (Response 400 [(''message'',
                  S ''Message cannot be retried. Max retries exceeded or not in failed status.'')], st)
          else case map_of (clients st) cid of
            None \<Rightarrow> (server_error, st)
          | Some cl \<Rightarrow>
              if \<not> canSendMessage cl
              then (Response 403 [(''message'', S ''Client cannot send messages'')], st)
              else
                let r = incrementRetry m
                in case persist mid r st of
                     Inl err \<Rightarrow> (server_error, st)
                   | Inr st1 \<Rightarrow>
                       dispatch ''Message retry successful'' [] ''Retry failed''
                         e mid (fst r) cid cl st1)"

definition cancel_route :: "nat \<Rightarrow> nat \<Rightarrow> db \<Rightarrow> response \<times> db" where
  "cancel_route mid cid st =
     (case find_message mid cid st of
        None \<Rightarrow> (Response 404 [(''message'', S ''Scheduled message not found'')], st)
      | Some m \<Rightarrow>
          if isScheduled (scheduling m) \<and> status (delivery m) = Pending
          then (Response 200 [(''message'', S ''Scheduled message cancelled successfully'')],
                st\<lparr>messages := AList.delete mid (messages st)\<rparr>)
          else (Response 404 [(''message'', S ''Scheduled message not found'')], st))"

text \<open>
  The body of \<open>POST /webhook\<close>. \<open>wh_status\<close> is the status string of the request;
  one that is not in the schema's enum fails the schema's validation when the document
  is saved.
\<close>

record webhook_request =
  wh_messageId :: "nat option"
  wh_status :: string
  wh_error :: "string option"

definition parse_status :: "string \<Rightarrow> delivery_status option" where
  "parse_status s =
     (if s = ''pending'' then Some Pending
      else if s = ''sent'' then Some Sent
      else if s = ''delivered'' then Some Delivered
      else if s = ''failed'' then Some Failed
      else if s = ''undelivered'' then Some Undelivered
      else None)"

definition webhook_route :: "env \<Rightarrow> webhook_request \<Rightarrow> db \<Rightarrow> response \<times> db" where
  "webhook_route e wr st =
     (case wh_messageId wr of
        None \<Rightarrow> (Response 400 [(''message'', S ''Message ID required'')], st)
      | Some mid \<Rightarrow>
          (case map_of (messages st) mid of
             None \<Rightarrow> (Response 404 [(''message'', S ''Message not found'')], st)
           | Some m \<Rightarrow>
               (case parse_status (wh_status wr) of
                  None \<Rightarrow> (server_error, st)
                | Some new_status \<Rightarrow>
                    (case persist mid
                            (updateDeliveryStatus new_status [FailureReason (wh_error wr)]
                               (env_now e) m) st of
                       Inl err \<Rightarrow> (server_error, st)
                     | Inr st1 \<Rightarrow>
                         (Response 200 [(''message'', S ''Status updated successfully'')], st1)))))"

text \<open>
  The states of the two collections that the routes can produce: the message collection
  starts empty and changes only through the four routes; clients are managed elsewhere
  and may change between requests.
\<close>

datatype request =
    Send send_request
  | Retry nat nat
  | Cancel nat nat
  | Webhook webhook_request

fun handle :: "env \<Rightarrow> request \<Rightarrow> db \<Rightarrow> response \<times> db" where
  "handle e (Send rq) st = send_route e rq st"
| "handle e (Retry mid cid) st = retry_route e mid cid st"
| "handle e (Cancel mid cid) st = cancel_route mid cid st"
| "handle e (Webhook wr) st = webhook_route e wr st"

inductive reachable :: "db \<Rightarrow> bool" where
  start: "reachable \<lparr>messages = [], clients = cs\<rparr>"
| request: "reachable st \<Longrightarrow> reachable (snd (handle e rq st))"
| clients_changed: "reachable st \<Longrightarrow> reachable (st\<lparr>clients := cs\<rparr>)"

section \<open>Notions for the route invariants\<close>

text \<open>
  \<open>retouched m m'\<close>: \<open>m'\<close> has the compliance sub-record and the two retry numbers
  of \<open>m\<close>. \<open>evolves m m'\<close>: the compliance sub-record and \<open>maxRetries\<close> are
  those of \<open>m\<close>, \<open>retryCount\<close> has not decreased, and it is within \<open>maxRetries\<close>
  if it was. \<open>fresh m\<close>: a new document with the default delivery sub-record which the
  save middleware lets through. \<open>sound m\<close>: both compliance flags are set and
  \<open>retryCount\<close> is within \<open>maxRetries\<close>.
\<close>

definition evolves :: "message \<Rightarrow> message \<Rightarrow> bool" where
  "evolves m m' =
     (compliance m' = compliance m \<and>
      maxRetries (delivery m') = maxRetries (delivery m) \<and>
      retryCount (delivery m) \<le> retryCount (delivery m') \<and>
      (retryCount (delivery m) \<le> maxRetries (delivery m)
         \<longrightarrow> retryCount (delivery m') \<le> maxRetries (delivery m')))"

definition retouched :: "message \<Rightarrow> message \<Rightarrow> bool" where
  "retouched m m' =
     (compliance m' = compliance m \<and>
      maxRetries (delivery m') = maxRetries (delivery m) \<and>
      retryCount (delivery m') = retryCount (delivery m))"

definition fresh :: "message \<Rightarrow> bool" where
  "fresh m = (pre_save m = None \<and> delivery m = default_delivery)"

definition sound :: "message \<Rightarrow> bool" where
  "sound m =
     (ageVerificationPassed (compliance m) \<and> consentVerified (compliance m) \<and>
      retryCount (delivery m) \<le> maxRetries (delivery m))"

text \<open>What one request does to the message stored under an id.\<close>

definition changed_at :: "nat \<Rightarrow> db \<Rightarrow> db \<Rightarrow> bool" where
  "changed_at k st st' =
     ((\<forall>j. j \<noteq> k \<longrightarrow> map_of (messages st') j = map_of (messages st) j) \<and>
      (case map_of (messages st') k of
         None \<Rightarrow> True
       | Some m1 \<Rightarrow>
           (case map_of (messages st) k of
              Some m \<Rightarrow> evolves m m1
            | None \<Rightarrow> (\<exists>m0. fresh m0 \<and> evolves m0 m1))))"

text \<open>
  \<open>restamp s t m\<close>: the message \<open>m\<close> with the one timestamp that setting the
  status \<open>s\<close> assigns (\<open>sentAt\<close> for \<open>sent\<close>, \<open>deliveredAt\<close> for
  \<open>delivered\<close>, none for the other statuses) replaced by \<open>t\<close>, every other field
  as it is.
\<close>

definition restamp :: "delivery_status \<Rightarrow> nat \<Rightarrow> message \<Rightarrow> message" where
  "restamp s t m =
     (if s = Sent then m\<lparr>delivery := (delivery m)\<lparr>sentAt := Some t\<rparr>\<rparr>
      else if s = Delivered then m\<lparr>delivery := (delivery m)\<lparr>deliveredAt := Some t\<rparr>\<rparr>
      else m)"

section \<open>Example data\<close>

text \<open>
  A client as the Client schema creates it (both lists empty), with an active
  subscription and Twilio credentials.
\<close>

definition example_client :: client where
  "example_client =
     \<lparr>complianceSettings =
        \<lparr>ageVerificationRequired = True, consentRequired = True, maxMessagesPerDay = 5,
         restrictedKeywords = Some [], requiredDisclaimers = Some []\<rparr>,
      mmsSettings =
        \<lparr>provider = Some Twilio,
         apiCredentials =
           \<lparr>accountSid = Some ''AC1'', authToken = Some ''tok'',
            fromNumber = Some ''+15550001111'', accountId = None, username = None,
            password = None, apiKey = None\<rparr>\<rparr>,
      subscription = \<lparr>sub_status = Active, messagesUsed = 0, messagesLimit = 1000\<rparr>,
      isActive = True,
      complianceStatus = Compliant\<rparr>"

definition with_keywords :: "string list option \<Rightarrow> client \<Rightarrow> client" where
  "with_keywords ks cl = cl\<lparr>complianceSettings := (complianceSettings cl)\<lparr>restrictedKeywords := ks\<rparr>\<rparr>"

definition with_disclaimers :: "string list option \<Rightarrow> client \<Rightarrow> client" where
  "with_disclaimers ds cl = cl\<lparr>complianceSettings := (complianceSettings cl)\<lparr>requiredDisclaimers := ds\<rparr>\<rparr>"

definition verified_recipient :: recipient where
  "verified_recipient =
     \<lparr>phoneNumber = ''5551234567'', ageVerified = True, consentGiven = True,
      consentDate = None, optOutStatus = False\<rparr>"

definition unverified_recipient :: recipient where
  "unverified_recipient = verified_recipient\<lparr>ageVerified := False\<rparr>"

definition text_content :: "string \<Rightarrow> content" where
  "text_content t = \<lparr>msg_text = Some t, media = [], templateId = None\<rparr>"

text \<open>
  A message as the send route stores it for \<open>verified_recipient\<close>, the second one
  marked delivered at time 500; an unsaved message with the schema's defaults; and a
  database holding the first two.
\<close>

definition example_message :: message where
  "example_message =
     \<lparr>clientId = 7, userId = 1, recipient = verified_recipient,
      content = text_content ''Buy now'', delivery = default_delivery,
      compliance = \<lparr>ageVerificationPassed = True, consentVerified = True,
                    contentScreened = True, disclaimersIncluded = False,
                    screeningResults = None\<rparr>,
      scheduling = \<lparr>scheduledFor = None, isScheduled = False\<rparr>\<rparr>"

definition delivered_message :: message where
  "delivered_message =
     example_message\<lparr>delivery := default_delivery\<lparr>status := Delivered, sentAt := Some 400,
                                                     deliveredAt := Some 500\<rparr>\<rparr>"


definition example_db :: db where
  "example_db = \<lparr>messages = [(1, example_message), (2, delivered_message)],
                  clients = [(7, example_client)]\<rparr>"

text \<open>
  An environment at time \<open>t\<close> (hour 10) whose backend accepts every request and
  answers with the address the request is sent to as the provider's message id.
\<close>

definition request_to :: "provider_request \<Rightarrow> string" where
  "request_to rq =
     (case rq of
        TwilioCreate sid tok d \<Rightarrow> md_to d
      | BandwidthPost acc usr pw d \<Rightarrow> md_to d
      | MessagebirdPost k d \<Rightarrow> md_to d)"

definition echo_backend :: transport where
  "echo_backend rq = Inr (request_to rq, [])"

definition failing_backend :: transport where
  "failing_backend rq = Inl ''timeout''"

definition example_env :: "nat \<Rightarrow> transport \<Rightarrow> env" where
  "example_env t backend =
     \<lparr>env_now = t, env_hour = 10, env_new_id = 3, env_backend = backend,
      env_findTemplate = (\<lambda>tid. None)\<rparr>"

text \<open>A backend that is only ever reached with requests addressed to \<open>p\<close>.\<close>

definition only_to :: "string \<Rightarrow> transport \<Rightarrow> transport" where
  "only_to p backend rq = (if request_to rq = p then backend rq else Inl [])"

definition example_send :: "recipient \<Rightarrow> string \<Rightarrow> send_request" where
  "example_send r t =
     \<lparr>req_valid = True, req_errors = [], req_clientId = 7, req_userId = 1,
      req_recipient = r, req_content = text_content t, req_scheduling = None\<rparr>"

definition webhook_for :: "nat \<Rightarrow> string \<Rightarrow> webhook_request" where
  "webhook_for mid s = \<lparr>wh_messageId = Some mid, wh_status = s, wh_error = None\<rparr>"


text \<open>
  Databases the routes produce from a database with one client and no message: after a
  send that the backend accepts, after a send on which the backend fails, and after three
  retries of the latter on which the backend fails again; with the messages they hold.
\<close>

definition start_db :: db where
  "start_db = \<lparr>messages = [], clients = [(7, example_client)]\<rparr>"

definition sent_db :: db where
  "sent_db = snd (handle (example_env 100 echo_backend)
                    (Send (example_send verified_recipient ''Buy now'')) start_db)"

definition sent_message :: message where
  "sent_message =
     example_message\<lparr>delivery := default_delivery\<lparr>status := Sent,
        providerMessageId := Some ''5551234567'', providerResponse := Some [],
        sentAt := Some 100\<rparr>\<rparr>"

definition failed_db :: db where
  "failed_db = snd (handle (example_env 100 failing_backend)
                      (Send (example_send verified_recipient ''Buy now'')) start_db)"

definition exhausted_db :: db where
  "exhausted_db =
     snd (handle (example_env 400 failing_backend) (Retry 3 7)
       (snd (handle (example_env 300 failing_backend) (Retry 3 7)
         (snd (handle (example_env 200 failing_backend) (Retry 3 7) failed_db)))))"

definition failed_message :: "nat \<Rightarrow> message" where
  "failed_message n =
     example_message\<lparr>delivery := default_delivery\<lparr>status := Failed,
        failureReason := Some ''Twilio error: timeout'', retryCount := n\<rparr>\<rparr>"

section \<open>The compliance evaluator aggregates every failure\<close>

lemma fail_with_simps:
  "passed (fail_with r v) = False"
  "details (fail_with r v) = details v @ [r]"
  "v_ageVerified (fail_with r v) = v_ageVerified v"
  "v_consentVerified (fail_with r v) = v_consentVerified v"
  "v_contentScreened (fail_with r v) = v_contentScreened v"
  "v_disclaimersIncluded (fail_with r v) = v_disclaimersIncluded v"
  by (simp_all add: fail_with_def)

lemma step_age_details:
  "details (step_age now r cl v) =
     details v @ (if verified (verifyAge now r cl) then [] else [''Age verification required''])"
  by (simp add: step_age_def Let_def fail_with_simps)

lemma step_age_passed:
  "passed (step_age now r cl v) = (passed v \<and> verified (verifyAge now r cl))"
  by (simp add: step_age_def Let_def fail_with_simps)

lemma step_consent_details:
  "details (step_consent now r cl v) =
     details v @ (if verified (verifyConsent now r cl) then [] else [''Consent verification required''])"
  by (simp add: step_consent_def Let_def fail_with_simps)

lemma step_consent_passed:
  "passed (step_consent now r cl v) = (passed v \<and> verified (verifyConsent now r cl))"
  by (simp add: step_consent_def Let_def fail_with_simps)

lemma step_content_details:
  "details (step_content c cl v) =
     details v @ (if approved (screenContent c cl) then []
                  else [''Content failed screening: '' @ reason (screenContent c cl)])"
  by (simp add: step_content_def Let_def fail_with_simps)

lemma step_content_passed:
  "passed (step_content c cl v) = (passed v \<and> approved (screenContent c cl))"
  by (simp add: step_content_def Let_def fail_with_simps)

lemma step_disclaimers_Some:
  assumes "requiredDisclaimers (complianceSettings cl) = Some ds"
  shows "\<exists>v'. step_disclaimers c cl v = Inr v' \<and>
           details v' = details v @ (if included (checkDisclaimers c cl) \<or> ds = [] then []
                                     else [''Required disclaimers missing'']) \<and>
           passed v' = (passed v \<and> (included (checkDisclaimers c cl) \<or> ds = []))"
  using assms by (simp add: step_disclaimers_def disclaimers_missing_def Let_def fail_with_simps)

lemma step_hours_details:
  "details (step_hours hour cl v) =
     details v @ (if hours_allowed (checkBusinessHours hour cl) then []
                  else [''Messages not allowed outside business hours''])"
  by (simp add: step_hours_def fail_with_simps)

lemma step_hours_passed:
  "passed (step_hours hour cl v) = (passed v \<and> hours_allowed (checkBusinessHours hour cl))"
  by (simp add: step_hours_def fail_with_simps)

lemma step_rate_details:
  "details (step_rate r cl v) =
     details v @ (if rate_allowed (checkRateLimit r cl) then []
                  else [''Rate limit exceeded for recipient''])"
  by (simp add: step_rate_def fail_with_simps)

lemma step_rate_passed:
  "passed (step_rate r cl v) = (passed v \<and> rate_allowed (checkRateLimit r cl))"
  by (simp add: step_rate_def fail_with_simps)

lemmas step_simps = step_age_details step_age_passed step_consent_details step_consent_passed
  step_content_details step_content_passed step_hours_details step_hours_passed
  step_rate_details step_rate_passed

lemma compliance_details:
  assumes "requiredDisclaimers (complianceSettings cl) = Some ds"
  shows "details (checkMessageCompliance now hour cl r c) =
     (if verified (verifyAge now r cl) then [] else [''Age verification required'']) @
     (if verified (verifyConsent now r cl) then [] else [''Consent verification required'']) @
     (if approved (screenContent c cl) then []
      else [''Content failed screening: '' @ reason (screenContent c cl)]) @
     (if included (checkDisclaimers c cl) \<or> ds = [] then [] else [''Required disclaimers missing'']) @
     (if hours_allowed (checkBusinessHours hour cl) then []
      else [''Messages not allowed outside business hours'']) @
     (if rate_allowed (checkRateLimit r cl) then [] else [''Rate limit exceeded for recipient''])"
proof -
  let ?v3 = "step_content c cl (step_consent now r cl (step_age now r cl
      \<lparr>passed = True, v_ageVerified = False, v_consentVerified = False,
       v_contentScreened = False, v_disclaimersIncluded = False,
       details = [], v_screeningResults = Some []\<rparr>))"
  from step_disclaimers_Some [OF assms, of c ?v3]
  obtain v4 where v4: "step_disclaimers c cl ?v3 = Inr v4"
    and d4: "details v4 = details ?v3 @ (if included (checkDisclaimers c cl) \<or> ds = [] then []
                                     else [''Required disclaimers missing''])"
    by blast
  have "checkMessageCompliance now hour cl r c = step_rate r cl (step_hours hour cl v4)"
    using v4 by (simp add: checkMessageCompliance_def)
  then show ?thesis
    by (simp add: step_simps d4)
qed

lemma compliance_passed:
  assumes "requiredDisclaimers (complianceSettings cl) = Some ds"
  shows "passed (checkMessageCompliance now hour cl r c) =
     (verified (verifyAge now r cl) \<and> verified (verifyConsent now r cl) \<and>
      approved (screenContent c cl) \<and> (included (checkDisclaimers c cl) \<or> ds = []) \<and>
      hours_allowed (checkBusinessHours hour cl) \<and> rate_allowed (checkRateLimit r cl))"
proof -
  let ?v3 = "step_content c cl (step_consent now r cl (step_age now r cl
      \<lparr>passed = True, v_ageVerified = False, v_consentVerified = False,
       v_contentScreened = False, v_disclaimersIncluded = False,
       details = [], v_screeningResults = Some []\<rparr>))"
  from step_disclaimers_Some [OF assms, of c ?v3]
  obtain v4 where v4: "step_disclaimers c cl ?v3 = Inr v4"
    and p4: "passed v4 = (passed ?v3 \<and> (included (checkDisclaimers c cl) \<or> ds = []))"
    by blast
  have "checkMessageCompliance now hour cl r c = step_rate r cl (step_hours hour cl v4)"
    using v4 by (simp add: checkMessageCompliance_def)
  then show ?thesis
    by (simp add: step_simps p4)
qed


text \<open>
  C5: the evaluator runs all six checks (age verification, consent, content screening,
  disclaimers, business hours, recipient rate limit) on every invocation, none skipped
  because an earlier one failed, and the verdict's \<open>details\<close> hold one reason for
  every failed applicable check, in the order of the checks; in particular a message that
  fails both age verification and content screening has both reasons in the list. The
  client is a stored one: its disclaimer list is an array.
\<close>

theorem compliance_aggregates_all_failures:
  assumes "requiredDisclaimers (complianceSettings cl) = Some ds"
  shows "details (checkMessageCompliance now hour cl r c) =
     (if verified (verifyAge now r cl) then [] else [''Age verification required'']) @
     (if verified (verifyConsent now r cl) then [] else [''Consent verification required'']) @
     (if approved (screenContent c cl) then []
      else [''Content failed screening: '' @ reason (screenContent c cl)]) @
     (if included (checkDisclaimers c cl) \<or> ds = [] then [] else [''Required disclaimers missing'']) @
     (if hours_allowed (checkBusinessHours hour cl) then []
      else [''Messages not allowed outside business hours'']) @
     (if rate_allowed (checkRateLimit r cl) then [] else [''Rate limit exceeded for recipient''])
   \<and> passed (checkMessageCompliance now hour cl r c) = (details (checkMessageCompliance now hour cl r c) = [])
   \<and> (\<not> verified (verifyAge now r cl) \<and> \<not> approved (screenContent c cl) \<longrightarrow>
        ''Age verification required'' \<in> set (details (checkMessageCompliance now hour cl r c)) \<and>
        (''Content failed screening: '' @ reason (screenContent c cl))
          \<in> set (details (checkMessageCompliance now hour cl r c)))"
proof -
  note d = compliance_details [OF assms, of now hour r c]
  note p = compliance_passed [OF assms, of now hour r c]
  have order: "details (checkMessageCompliance now hour cl r c) =
     (if verified (verifyAge now r cl) then [] else [''Age verification required'']) @
     (if verified (verifyConsent now r cl) then [] else [''Consent verification required'']) @
     (if approved (screenContent c cl) then []
      else [''Content failed screening: '' @ reason (screenContent c cl)]) @
     (if included (checkDisclaimers c cl) \<or> ds = [] then [] else [''Required disclaimers missing'']) @
     (if hours_allowed (checkBusinessHours hour cl) then []
      else [''Messages not allowed outside business hours'']) @
     (if rate_allowed (checkRateLimit r cl) then [] else [''Rate limit exceeded for recipient''])"
    by (rule d)
  have verdict: "passed (checkMessageCompliance now hour cl r c)
      = (details (checkMessageCompliance now hour cl r c) = [])"
    by (simp add: d p)
  have both: "\<not> verified (verifyAge now r cl) \<and> \<not> approved (screenContent c cl) \<longrightarrow>
        ''Age verification required'' \<in> set (details (checkMessageCompliance now hour cl r c)) \<and>
        (''Content failed screening: '' @ reason (screenContent c cl))
          \<in> set (details (checkMessageCompliance now hour cl r c))"
    by (simp add: d)
  from order verdict both show ?thesis by blast
qed

theorem compliance_aggregates_all_failures_witness:
  "requiredDisclaimers (complianceSettings example_client) = Some [] \<and>
   \<not> verified (verifyAge 0 unverified_recipient example_client) \<and>
   \<not> approved (screenContent (text_content ''Illegal offer'') example_client) \<and>
   details (checkMessageCompliance 0 10 example_client unverified_recipient (text_content ''Illegal offer''))
     = [''Age verification required'',
        ''Content failed screening: Content contains inappropriate language'']"
proof -
  have h: "requiredDisclaimers (complianceSettings example_client) = Some []"
    by (simp add: example_client_def)
  have a: "\<not> verified (verifyAge 0 unverified_recipient example_client)"
    by code_simp
  have s: "\<not> approved (screenContent (text_content ''Illegal offer'') example_client)"
    by code_simp
  have "''Age verification required'' \<in> set (details (checkMessageCompliance 0 10 example_client unverified_recipient (text_content ''Illegal offer'')))"
    using compliance_aggregates_all_failures [OF h, of 0 10 unverified_recipient "text_content ''Illegal offer''"] a s
    by blast
  moreover have "details (checkMessageCompliance 0 10 example_client unverified_recipient (text_content ''Illegal offer''))
     = [''Age verification required'',
        ''Content failed screening: Content contains inappropriate language'']"
    by code_simp
  ultimately show ?thesis using h a s by blast
qed


section \<open>Substrings, disclaimers and screening\<close>

lemma startsWith_iff: "startsWith t s \<longleftrightarrow> (\<exists>post. t = s @ post)"
proof
  assume "startsWith t s"
  then have "t = s @ drop (length s) t"
    unfolding startsWith_def by (metis append_take_drop_id)
  then show "\<exists>post. t = s @ post" ..
next
  assume "\<exists>post. t = s @ post"
  then show "startsWith t s" unfolding startsWith_def by auto
qed

lemma str_includes_iff: "str_includes t s \<longleftrightarrow> (\<exists>pre post. t = pre @ s @ post)"
proof (induction t)
  case Nil
  then show ?case by auto
next
  case (Cons c t)
  show ?case
  proof
    assume "str_includes (c # t) s"
    then consider "startsWith (c # t) s" | "str_includes t s" by auto
    then show "\<exists>pre post. c # t = pre @ s @ post"
    proof cases
      case 1
      then obtain post where "c # t = s @ post" using startsWith_iff by blast
      then have "c # t = [] @ s @ post" by simp
      then show ?thesis by blast
    next
      case 2
      then obtain pre post where "t = pre @ s @ post" using Cons.IH by blast
      then have "c # t = (c # pre) @ s @ post" by simp
      then show ?thesis by blast
    qed
  next
    assume "\<exists>pre post. c # t = pre @ s @ post"
    then obtain pre post where eq: "c # t = pre @ s @ post" by blast
    show "str_includes (c # t) s"
    proof (cases pre)
      case Nil
      then have "startsWith (c # t) s" using eq startsWith_iff by auto
      then show ?thesis by simp
    next
      case (Cons a pre')
      then have "t = pre' @ s @ post" using eq by simp
      then have "str_includes t s" using Cons.IH by blast
      then show ?thesis by simp
    qed
  qed
qed

lemma checkDisclaimers_included:
  "included (checkDisclaimers c cl) =
     (\<exists>d \<in> set (or_default (requiredDisclaimers (complianceSettings cl)) default_requiredDisclaimers).
         str_includes (lowered_text c) (toLowerCase d))"
  by (auto simp add: checkDisclaimers_def Let_def filter_empty_conv)

text \<open>
  C8: if the tenant's required-disclaimer list is non-empty and no listed disclaimer
  occurs in the message text as a substring, both compared in lower case, the verdict
  fails and carries the disclaimer reason; if the tenant's list is empty, the disclaimer
  check never makes the verdict fail: the reason is absent and \<open>passed\<close> is decided
  by the other five checks alone.
\<close>

theorem disclaimer_check_fails_only_for_nonempty_list:
  "(requiredDisclaimers (complianceSettings cl) = Some ds \<and> ds \<noteq> [] \<and>
      (\<forall>d \<in> set ds. \<not> (\<exists>pre post. lowered_text c = pre @ toLowerCase d @ post))
    \<longrightarrow> \<not> passed (checkMessageCompliance now hour cl r c) \<and>
        ''Required disclaimers missing'' \<in> set (details (checkMessageCompliance now hour cl r c)))
   \<and> (requiredDisclaimers (complianceSettings cl) = Some []
    \<longrightarrow> ''Required disclaimers missing'' \<notin> set (details (checkMessageCompliance now hour cl r c)) \<and>
        passed (checkMessageCompliance now hour cl r c) =
          (verified (verifyAge now r cl) \<and> verified (verifyConsent now r cl) \<and>
           approved (screenContent c cl) \<and> hours_allowed (checkBusinessHours hour cl) \<and>
           rate_allowed (checkRateLimit r cl)))"
proof (intro conjI impI)
  assume a: "requiredDisclaimers (complianceSettings cl) = Some ds \<and> ds \<noteq> [] \<and>
      (\<forall>d \<in> set ds. \<not> (\<exists>pre post. lowered_text c = pre @ toLowerCase d @ post))"
  then have some: "requiredDisclaimers (complianceSettings cl) = Some ds" and ne: "ds \<noteq> []"
    and none: "\<forall>d \<in> set ds. \<not> str_includes (lowered_text c) (toLowerCase d)"
    by (simp_all add: str_includes_iff)
  have notinc: "\<not> included (checkDisclaimers c cl)"
    using none by (simp add: checkDisclaimers_included some or_default_def)
  show "\<not> passed (checkMessageCompliance now hour cl r c)"
    using notinc ne by (simp add: compliance_passed [OF some])
  show "''Required disclaimers missing'' \<in> set (details (checkMessageCompliance now hour cl r c))"
    using notinc ne by (simp add: compliance_details [OF some])
next
  assume e: "requiredDisclaimers (complianceSettings cl) = Some []"
  show "''Required disclaimers missing'' \<notin> set (details (checkMessageCompliance now hour cl r c))"
    by (simp add: compliance_details [OF e])
  show "passed (checkMessageCompliance now hour cl r c) =
          (verified (verifyAge now r cl) \<and> verified (verifyConsent now r cl) \<and>
           approved (screenContent c cl) \<and> hours_allowed (checkBusinessHours hour cl) \<and>
           rate_allowed (checkRateLimit r cl))"
    by (simp add: compliance_passed [OF e])
qed


theorem disclaimer_check_fails_only_for_nonempty_list_witness:
  "requiredDisclaimers (complianceSettings (with_disclaimers (Some [''21+'']) example_client)) = Some [''21+''] \<and>
   \<not> passed (checkMessageCompliance 0 10 (with_disclaimers (Some [''21+'']) example_client)
               verified_recipient (text_content ''Buy now'')) \<and>
   ''Required disclaimers missing'' \<in> set (details (checkMessageCompliance 0 10
               (with_disclaimers (Some [''21+'']) example_client) verified_recipient (text_content ''Buy now''))) \<and>
   requiredDisclaimers (complianceSettings example_client) = Some [] \<and>
   passed (checkMessageCompliance 0 10 example_client verified_recipient (text_content ''Buy now''))"
proof -
  let ?cl = "with_disclaimers (Some [''21+'']) example_client"
  let ?c = "text_content ''Buy now''"
  have h1: "requiredDisclaimers (complianceSettings ?cl) = Some [''21+'']"
    by (simp add: with_disclaimers_def)
  have "\<not> str_includes (lowered_text ?c) (toLowerCase ''21+'')"
    by code_simp
  then have h2: "\<forall>d \<in> set [''21+'']. \<not> (\<exists>pre post. lowered_text ?c = pre @ toLowerCase d @ post)"
    by (simp add: str_includes_iff)
  have h3: "requiredDisclaimers (complianceSettings example_client) = Some []"
    by (simp add: example_client_def)
  have others: "verified (verifyAge 0 verified_recipient example_client) \<and>
     verified (verifyConsent 0 verified_recipient example_client) \<and>
     approved (screenContent ?c example_client) \<and>
     hours_allowed (checkBusinessHours 10 example_client) \<and>
     rate_allowed (checkRateLimit verified_recipient example_client)"
    by code_simp
  note t1 = disclaimer_check_fails_only_for_nonempty_list
     [of ?cl "[''21+'']" ?c 0 10 verified_recipient]
  note t2 = disclaimer_check_fails_only_for_nonempty_list
     [of example_client "[]" ?c 0 10 verified_recipient]
  from t1 h1 h2 have p1: "\<not> passed (checkMessageCompliance 0 10 ?cl verified_recipient ?c) \<and>
     ''Required disclaimers missing'' \<in> set (details (checkMessageCompliance 0 10 ?cl verified_recipient ?c))"
    by blast
  from t2 h3 others have p2: "passed (checkMessageCompliance 0 10 example_client verified_recipient ?c)"
    by blast
  show ?thesis using h1 h3 p1 p2 by blast
qed

lemma screenContent_screened: "screened (screenContent c cl) = True"
  by (simp add: screenContent_def screen_length_def screen_media_def screen_inappropriate_def
      screen_keywords_def Let_def split: check.splits)

lemma screenContent_reason:
  "reason (screenContent c cl) =
     (let t = lowered_text c;
          foundKeywords = filter (\<lambda>keyword. str_includes t (toLowerCase keyword))
                            (or_default (restrictedKeywords (complianceSettings cl)) default_restrictedKeywords)
      in if length t > 1600 then ''Message exceeds character limit''
         else case checkMediaContent (media c) of
                Rejected r \<Rightarrow> r
              | Approved \<Rightarrow>
                  (case checkInappropriateContent t of
                     Rejected r \<Rightarrow> r
                   | Approved \<Rightarrow>
                       if foundKeywords \<noteq> []
                       then ''Content contains restricted keywords: '' @ join '', '' foundKeywords
                       else []))"
  by (cases "media c")
     (simp_all add: screenContent_def screen_length_def screen_media_def screen_inappropriate_def
      screen_keywords_def Let_def split: check.splits)

lemma screenContent_approved:
  "approved (screenContent c cl) =
     (let t = lowered_text c;
          foundKeywords = filter (\<lambda>keyword. str_includes t (toLowerCase keyword))
                            (or_default (restrictedKeywords (complianceSettings cl)) default_restrictedKeywords)
      in foundKeywords = [] \<and> checkInappropriateContent t = Approved \<and>
         checkMediaContent (media c) = Approved \<and> length t \<le> 1600)"
  by (cases "media c")
     (auto simp add: screenContent_def screen_length_def screen_media_def screen_inappropriate_def
      screen_keywords_def Let_def split: check.splits)


lemma screenContent_flaggedKeywords:
  "flaggedKeywords (screenContent c cl) =
     filter (\<lambda>keyword. str_includes (lowered_text c) (toLowerCase keyword))
       (or_default (restrictedKeywords (complianceSettings cl)) default_restrictedKeywords)"
  by (cases "media c")
     (simp_all add: screenContent_def screen_length_def screen_media_def screen_inappropriate_def
      screen_keywords_def Let_def split: check.splits)

lemma screenContent_suggestedChanges: "suggestedChanges (screenContent c cl) = []"
  by (cases "media c")
     (simp_all add: screenContent_def screen_length_def screen_media_def screen_inappropriate_def
      screen_keywords_def Let_def split: check.splits)

text \<open>
  C6 (as amended): the four screening checks run in the fixed order restricted keywords,
  inappropriate patterns, media, length, and each failing check overwrites the reason, so
  the recorded reason is that of the last failing check in that order (the length reason
  before the media reason before the pattern reason before the keyword reason);
  \<open>flaggedKeywords\<close> still lists the keyword hits, whichever reason is recorded;
  \<open>approved\<close> is true exactly when all four pass, and \<open>screened\<close> is true whether or
  not the content is approved.
\<close>

theorem screening_reason_is_last_failure:
  "screened (screenContent c cl) = True \<and>
   approved (screenContent c cl) =
     (let t = lowered_text c;
          foundKeywords = filter (\<lambda>keyword. str_includes t (toLowerCase keyword))
                            (or_default (restrictedKeywords (complianceSettings cl)) default_restrictedKeywords)
      in foundKeywords = [] \<and> checkInappropriateContent t = Approved \<and>
         checkMediaContent (media c) = Approved \<and> length t \<le> 1600) \<and>
   reason (screenContent c cl) =
     (let t = lowered_text c;
          foundKeywords = filter (\<lambda>keyword. str_includes t (toLowerCase keyword))
                            (or_default (restrictedKeywords (complianceSettings cl)) default_restrictedKeywords)
      in if length t > 1600 then ''Message exceeds character limit''
         else case checkMediaContent (media c) of
                Rejected r \<Rightarrow> r
              | Approved \<Rightarrow>
                  (case checkInappropriateContent t of
                     Rejected r \<Rightarrow> r
                   | Approved \<Rightarrow>
                       if foundKeywords \<noteq> []
                       then ''Content contains restricted keywords: '' @ join '', '' foundKeywords
                       else [])) \<and>
   flaggedKeywords (screenContent c cl) =
     filter (\<lambda>keyword. str_includes (lowered_text c) (toLowerCase keyword))
       (or_default (restrictedKeywords (complianceSettings cl)) default_restrictedKeywords) \<and>
   suggestedChanges (screenContent c cl) = []"
proof (intro conjI)
  show "screened (screenContent c cl) = True"
    by (rule screenContent_screened)
next
  show "approved (screenContent c cl) =
     (let t = lowered_text c;
          foundKeywords = filter (\<lambda>keyword. str_includes t (toLowerCase keyword))
                            (or_default (restrictedKeywords (complianceSettings cl)) default_restrictedKeywords)
      in foundKeywords = [] \<and> checkInappropriateContent t = Approved \<and>
         checkMediaContent (media c) = Approved \<and> length t \<le> 1600)"
    by (rule screenContent_approved)
next
  show "reason (screenContent c cl) =
     (let t = lowered_text c;
          foundKeywords = filter (\<lambda>keyword. str_includes t (toLowerCase keyword))
                            (or_default (restrictedKeywords (complianceSettings cl)) default_restrictedKeywords)
      in if length t > 1600 then ''Message exceeds character limit''
         else case checkMediaContent (media c) of
                Rejected r \<Rightarrow> r
              | Approved \<Rightarrow>
                  (case checkInappropriateContent t of
                     Rejected r \<Rightarrow> r
                   | Approved \<Rightarrow>
                       if foundKeywords \<noteq> []
                       then ''Content contains restricted keywords: '' @ join '', '' foundKeywords
                       else []))"
    by (rule screenContent_reason)
next
  show "flaggedKeywords (screenContent c cl) =
     filter (\<lambda>keyword. str_includes (lowered_text c) (toLowerCase keyword))
       (or_default (restrictedKeywords (complianceSettings cl)) default_restrictedKeywords)"
    by (rule screenContent_flaggedKeywords)
next
  show "suggestedChanges (screenContent c cl) = []"
    by (rule screenContent_suggestedChanges)
qed

text \<open>
  C6 as stated fails: with the tenant keyword \<open>weed\<close> and the text
  \<open>Weed for a minor\<close> the keyword check fails first and the pattern check
  after it, and the recorded reason is the pattern check's, not the keyword check's.
\<close>

theorem first_reason_counterexample:
  "flaggedKeywords (screenContent (text_content ''Weed for a minor'') (with_keywords (Some [''weed'']) example_client)) = [''weed'']
   \<and> checkInappropriateContent (lowered_text (text_content ''Weed for a minor'')) = Rejected ''Content contains inappropriate language''
   \<and> reason (screenContent (text_content ''Weed for a minor'') (with_keywords (Some [''weed'']) example_client))
       = ''Content contains inappropriate language''
   \<and> reason (screenContent (text_content ''Weed for a minor'') (with_keywords (Some [''weed'']) example_client))
       \<noteq> ''Content contains restricted keywords: weed''"
  by code_simp

text \<open>
  C7: the code at a client with empty lists, as the Client schema creates it. The empty
  keyword list is scanned as it is: a text with two words of the built-in keyword list is
  approved with nothing flagged, where the same text against a missing list is flagged by
  the built-in list; and the empty disclaimer list is matched as it is: a text holding a
  built-in disclaimer has \<open>included\<close> false, where against a missing list it is true.
\<close>

theorem empty_lists_at_failing_input:
  "approved (screenContent (text_content ''Fresh weed and cannabis'') example_client)
   \<and> flaggedKeywords (screenContent (text_content ''Fresh weed and cannabis'') example_client) = []
   \<and> flaggedKeywords (screenContent (text_content ''Fresh weed and cannabis'') (with_keywords None example_client))
        = [''cannabis'', ''weed'']
   \<and> \<not> included (checkDisclaimers (text_content ''Consume responsibly'') example_client)
   \<and> included (checkDisclaimers (text_content ''Consume responsibly'') (with_disclaimers None example_client))"
  by code_simp


section \<open>Delivery status updates\<close>

lemma assign_field_keeps:
  "status (assign_field d u) = status d"
  "sentAt (assign_field d u) = sentAt d"
  "deliveredAt (assign_field d u) = deliveredAt d"
  "retryCount (assign_field d u) = retryCount d"
  "maxRetries (assign_field d u) = maxRetries d"
  by (cases u; simp)+

lemma object_assign_keeps:
  "status (object_assign d ad) = status d"
  "sentAt (object_assign d ad) = sentAt d"
  "deliveredAt (object_assign d ad) = deliveredAt d"
  "retryCount (object_assign d ad) = retryCount d"
  "maxRetries (object_assign d ad) = maxRetries d"
  unfolding object_assign_def
  by (induction ad arbitrary: d; simp add: assign_field_keeps)+

lemma updateDeliveryStatus_fst:
  "fst (updateDeliveryStatus s ad now m) =
     m\<lparr>delivery := object_assign
          (if s = Sent then (delivery m)\<lparr>status := s, sentAt := Some now\<rparr>
           else if s = Delivered then (delivery m)\<lparr>status := s, deliveredAt := Some now\<rparr>
           else (delivery m)\<lparr>status := s\<rparr>) ad\<rparr>"
  by (simp add: updateDeliveryStatus_def Let_def)

lemma updateDeliveryStatus_snd:
  "snd (updateDeliveryStatus s ad now m) = pre_save (fst (updateDeliveryStatus s ad now m))"
  by (simp add: updateDeliveryStatus_def Let_def)

lemma updateDeliveryStatus_status:
  "status (delivery (fst (updateDeliveryStatus s ad now m))) = s"
  by (simp add: updateDeliveryStatus_fst object_assign_keeps)

lemma updateDeliveryStatus_compliance:
  "compliance (fst (updateDeliveryStatus s ad now m)) = compliance m"
  by (simp add: updateDeliveryStatus_fst)

lemma updateDeliveryStatus_counts:
  "retryCount (delivery (fst (updateDeliveryStatus s ad now m))) = retryCount (delivery m)"
  "maxRetries (delivery (fst (updateDeliveryStatus s ad now m))) = maxRetries (delivery m)"
  by (simp_all add: updateDeliveryStatus_fst object_assign_keeps)

lemma updateDeliveryStatus_saved:
  "(snd (updateDeliveryStatus s ad now m) = None) =
     (s = Pending \<longrightarrow> ageVerificationPassed (compliance m) \<and> consentVerified (compliance m))"
  by (simp add: updateDeliveryStatus_snd pre_save_def updateDeliveryStatus_status
      updateDeliveryStatus_compliance)

text \<open>
  C10: \<open>updateDeliveryStatus\<close> validates no lifecycle transition. For every message
  and every status of the schema's enum the document's \<open>delivery.status\<close> is that
  status afterwards, whatever it was before; whether the save goes through does not
  depend on the prior status either (only a document set to \<open>pending\<close> without both
  compliance flags is turned down by the save middleware). So a webhook request moves a
  stored message, for instance a delivered one, to any status it names, such as
  \<open>failed\<close> or \<open>pending\<close>.
\<close>

theorem updateDeliveryStatus_overwrites_any_status:
  "status (delivery (fst (updateDeliveryStatus s ad now m))) = s \<and>
   (snd (updateDeliveryStatus s ad now m) = None) =
     (s = Pending \<longrightarrow> ageVerificationPassed (compliance m) \<and> consentVerified (compliance m)) \<and>
   (wh_messageId wr = Some mid \<and> map_of (messages st) mid = Some m \<and>
    parse_status (wh_status wr) = Some s \<and>
    ageVerificationPassed (compliance m) \<and> consentVerified (compliance m)
    \<longrightarrow> fst (webhook_route e wr st) = Response 200 [(''message'', S ''Status updated successfully'')] \<and>
        map_option (\<lambda>m'. status (delivery m')) (map_of (messages (snd (webhook_route e wr st))) mid)
          = Some s)"
proof (intro conjI impI)
  show "status (delivery (fst (updateDeliveryStatus s ad now m))) = s"
    by (rule updateDeliveryStatus_status)
next
  show "(snd (updateDeliveryStatus s ad now m) = None) =
     (s = Pending \<longrightarrow> ageVerificationPassed (compliance m) \<and> consentVerified (compliance m))"
    by (rule updateDeliveryStatus_saved)
next
  assume a: "wh_messageId wr = Some mid \<and> map_of (messages st) mid = Some m \<and>
    parse_status (wh_status wr) = Some s \<and>
    ageVerificationPassed (compliance m) \<and> consentVerified (compliance m)"
  let ?r = "updateDeliveryStatus s [FailureReason (wh_error wr)] (env_now e) m"
  have saved: "snd ?r = None"
    using a by (simp add: updateDeliveryStatus_saved)
  have route: "webhook_route e wr st =
      (Response 200 [(''message'', S ''Status updated successfully'')],
       st\<lparr>messages := AList.update mid (fst ?r) (messages st)\<rparr>)"
    using a saved by (simp add: webhook_route_def persist_def)
  show "fst (webhook_route e wr st) = Response 200 [(''message'', S ''Status updated successfully'')]"
    by (simp add: route)
  show "map_option (\<lambda>m'. status (delivery m')) (map_of (messages (snd (webhook_route e wr st))) mid)
          = Some s"
    by (simp add: route update_conv' updateDeliveryStatus_status)
qed

theorem updateDeliveryStatus_overwrites_any_status_witness:
  "map_of (messages example_db) 2 = Some delivered_message \<and>
   status (delivery delivered_message) = Delivered \<and>
   map_option (\<lambda>m'. status (delivery m'))
     (map_of (messages (snd (webhook_route (example_env 900 echo_backend) (webhook_for 2 ''failed'') example_db))) 2)
     = Some Failed \<and>
   map_option (\<lambda>m'. status (delivery m'))
     (map_of (messages (snd (webhook_route (example_env 900 echo_backend) (webhook_for 2 ''pending'') example_db))) 2)
     = Some Pending"
proof -
  have stored: "map_of (messages example_db) 2 = Some delivered_message"
    by (simp add: example_db_def)
  have was: "status (delivery delivered_message) = Delivered"
    by (simp add: delivered_message_def)
  have flags: "ageVerificationPassed (compliance delivered_message) \<and>
      consentVerified (compliance delivered_message)"
    by (simp add: delivered_message_def example_message_def)
  have f: "wh_messageId (webhook_for 2 ''failed'') = Some 2 \<and>
      parse_status (wh_status (webhook_for 2 ''failed'')) = Some Failed"
    by (simp add: webhook_for_def parse_status_def)
  have p: "wh_messageId (webhook_for 2 ''pending'') = Some 2 \<and>
      parse_status (wh_status (webhook_for 2 ''pending'')) = Some Pending"
    by (simp add: webhook_for_def parse_status_def)
  note t1 = updateDeliveryStatus_overwrites_any_status
    [of Failed "[]" 0 delivered_message "webhook_for 2 ''failed''" 2 example_db "example_env 900 echo_backend"]
  note t2 = updateDeliveryStatus_overwrites_any_status
    [of Pending "[]" 0 delivered_message "webhook_for 2 ''pending''" 2 example_db "example_env 900 echo_backend"]
  from t1 stored flags f have r1: "map_option (\<lambda>m'. status (delivery m'))
     (map_of (messages (snd (webhook_route (example_env 900 echo_backend) (webhook_for 2 ''failed'') example_db))) 2)
     = Some Failed" by blast
  from t2 stored flags p have r2: "map_option (\<lambda>m'. status (delivery m'))
     (map_of (messages (snd (webhook_route (example_env 900 echo_backend) (webhook_for 2 ''pending'') example_db))) 2)
     = Some Pending" by blast
  from stored was r1 r2 show ?thesis by blast
qed


lemma object_assign_failureReason:
  "object_assign d [FailureReason v] = d\<lparr>failureReason := v\<rparr>"
  by (simp add: object_assign_def)

lemma webhook_update_twice:
  "fst (updateDeliveryStatus s [FailureReason v] t2 (fst (updateDeliveryStatus s [FailureReason v] t1 m)))
     = fst (updateDeliveryStatus s [FailureReason v] t2 m)"
  by (simp add: updateDeliveryStatus_fst object_assign_failureReason)

lemma webhook_update_time:
  "s \<noteq> Sent \<Longrightarrow> s \<noteq> Delivered \<Longrightarrow>
   updateDeliveryStatus s ad t2 m = updateDeliveryStatus s ad t1 m"
  by (simp add: updateDeliveryStatus_def Let_def)

lemma parse_status_Sent: "parse_status x = Some Sent \<Longrightarrow> x = ''sent''"
  by (simp add: parse_status_def split: if_splits)

lemma parse_status_Delivered: "parse_status x = Some Delivered \<Longrightarrow> x = ''delivered''"
  by (simp add: parse_status_def split: if_splits)

lemma webhook_route_replay:
  "webhook_route e2 wr (snd (webhook_route e1 wr st)) = webhook_route e2 wr st"
proof (cases "wh_messageId wr")
  case None
  then show ?thesis by (simp add: webhook_route_def)
next
  case (Some mid)
  show ?thesis
  proof (cases "map_of (messages st) mid")
    case None
    then show ?thesis using Some by (simp add: webhook_route_def)
  next
    case found: (Some m)
    show ?thesis
    proof (cases "parse_status (wh_status wr)")
      case None
      then show ?thesis using Some found by (simp add: webhook_route_def)
    next
      case parsed: (Some s)
      let ?r1 = "updateDeliveryStatus s [FailureReason (wh_error wr)] (env_now e1) m"
      let ?r2 = "updateDeliveryStatus s [FailureReason (wh_error wr)] (env_now e2) m"
      show ?thesis
      proof (cases "snd ?r1")
        case rejected: (Some err)
        then have "snd (webhook_route e1 wr st) = st"
          using Some found parsed by (simp add: webhook_route_def persist_def)
        then show ?thesis by simp
      next
        case None
        then have first: "snd (webhook_route e1 wr st)
            = st\<lparr>messages := AList.update mid (fst ?r1) (messages st)\<rparr>"
          using Some found parsed by (simp add: webhook_route_def persist_def)
        have again: "updateDeliveryStatus s [FailureReason (wh_error wr)] (env_now e2) (fst ?r1) = ?r2"
          by (rule prod_eqI)
             (simp_all add: webhook_update_twice updateDeliveryStatus_snd)
        have saved: "snd ?r2 = None"
          using None by (simp add: updateDeliveryStatus_saved)
        show ?thesis
          unfolding first
          using Some found parsed saved
          by (simp add: webhook_route_def persist_def update_conv' again)
      qed
    qed
  qed
qed

lemma webhook_route_time:
  assumes "env_now e1 = env_now e2 \<or> (wh_status wr \<noteq> ''sent'' \<and> wh_status wr \<noteq> ''delivered'')"
  shows "webhook_route e2 wr st = webhook_route e1 wr st"
proof -
  have "updateDeliveryStatus s ad (env_now e2) m = updateDeliveryStatus s ad (env_now e1) m"
    if "parse_status (wh_status wr) = Some s" for s ad m
  proof (cases "env_now e1 = env_now e2")
    case True
    then show ?thesis by simp
  next
    case False
    then have "s \<noteq> Sent" "s \<noteq> Delivered"
      using assms that parse_status_Sent parse_status_Delivered by blast+
    then show ?thesis by (rule webhook_update_time)
  qed
  then show ?thesis
    by (simp add: webhook_route_def split: option.splits)
qed

lemma restamp_update:
  "restamp s t2 (fst (updateDeliveryStatus s [FailureReason v] t1 m))
     = fst (updateDeliveryStatus s [FailureReason v] t2 m)"
  by (simp add: restamp_def updateDeliveryStatus_fst object_assign_failureReason)

lemma restamp_unstamped: "s \<noteq> Sent \<Longrightarrow> s \<noteq> Delivered \<Longrightarrow> restamp s t m = m"
  by (simp add: restamp_def)

lemma webhook_route_restamps:
  assumes w: "wh_messageId wr = Some mid"
    and s: "parse_status (wh_status wr) = Some s"
    and m1: "map_of (messages (snd (webhook_route e1 wr st))) mid = Some m1"
  shows "webhook_route e2 wr (snd (webhook_route e1 wr st)) =
           (fst (webhook_route e1 wr st),
            (snd (webhook_route e1 wr st))
              \<lparr>messages := AList.update mid (restamp s (env_now e2) m1)
                             (messages (snd (webhook_route e1 wr st)))\<rparr>)"
proof (cases "map_of (messages st) mid")
  case None
  then have "snd (webhook_route e1 wr st) = st"
    using w by (simp add: webhook_route_def)
  then show ?thesis using m1 None by simp
next
  case found: (Some m)
  let ?r1 = "updateDeliveryStatus s [FailureReason (wh_error wr)] (env_now e1) m"
  let ?r2 = "updateDeliveryStatus s [FailureReason (wh_error wr)] (env_now e2) m"
  have same_save: "snd ?r2 = snd ?r1"
    by (simp add: updateDeliveryStatus_snd pre_save_def updateDeliveryStatus_status
          updateDeliveryStatus_compliance)
  show ?thesis
  proof (cases "snd ?r1")
    case rejected: (Some err)
    then have first: "webhook_route e1 wr st = (server_error, st)"
      using w found s by (simp add: webhook_route_def persist_def)
    have second: "webhook_route e2 wr st = (server_error, st)"
      using w found s rejected same_save by (simp add: webhook_route_def persist_def)
    have "m1 = m" using m1 found first by simp
    have unst: "s \<noteq> Sent \<and> s \<noteq> Delivered"
      using rejected updateDeliveryStatus_saved [of s "[FailureReason (wh_error wr)]" "env_now e1" m]
      by auto
    then have "restamp s (env_now e2) m1 = m"
      using \<open>m1 = m\<close> by (simp add: restamp_unstamped)
    then have "AList.update mid (restamp s (env_now e2) m1) (messages st) = messages st"
      using found by (simp add: update_triv)
    then have rhs: "(fst (webhook_route e1 wr st),
            (snd (webhook_route e1 wr st))
              \<lparr>messages := AList.update mid (restamp s (env_now e2) m1)
                             (messages (snd (webhook_route e1 wr st)))\<rparr>) = (server_error, st)"
      by (simp add: first)
    have lhs: "webhook_route e2 wr (snd (webhook_route e1 wr st)) = (server_error, st)"
      by (simp only: webhook_route_replay second)
    show ?thesis
      by (simp only: lhs rhs)
  next
    case None
    then have first: "webhook_route e1 wr st =
        (Response 200 [(''message'', S ''Status updated successfully'')],
         st\<lparr>messages := AList.update mid (fst ?r1) (messages st)\<rparr>)"
      using w found s by (simp add: webhook_route_def persist_def)
    have second: "webhook_route e2 wr st =
        (Response 200 [(''message'', S ''Status updated successfully'')],
         st\<lparr>messages := AList.update mid (fst ?r2) (messages st)\<rparr>)"
      using w found s None same_save by (simp add: webhook_route_def persist_def)
    have "m1 = fst ?r1" using m1 first by (simp add: update_conv')
    then have stamp: "restamp s (env_now e2) m1 = fst ?r2"
      by (simp add: restamp_update)
    have lhs: "webhook_route e2 wr (snd (webhook_route e1 wr st)) =
        (Response 200 [(''message'', S ''Status updated successfully'')],
         st\<lparr>messages := AList.update mid (fst ?r2) (messages st)\<rparr>)"
      by (simp only: webhook_route_replay second)
    have rhs: "(fst (webhook_route e1 wr st),
            (snd (webhook_route e1 wr st))
              \<lparr>messages := AList.update mid (restamp s (env_now e2) m1)
                             (messages (snd (webhook_route e1 wr st)))\<rparr>) =
        (Response 200 [(''message'', S ''Status updated successfully'')],
         st\<lparr>messages := AList.update mid (fst ?r2) (messages st)\<rparr>)"
      by (simp add: first stamp)
    show ?thesis
      by (simp only: lhs rhs)
  qed
qed

text \<open>
  C3 (as amended): a webhook request applied a second time is not an error where the
  first was not: it answers as the first application did, and it leaves the database
  exactly as a single application of it at the time of the second request would. Compared
  with the record after the first application, every field of the message is the same
  except the one timestamp that the status sets, which is overwritten with the time of the
  second request: \<open>deliveredAt\<close> for \<open>delivered\<close>, \<open>sentAt\<close> for \<open>sent\<close>.
  For every other status, or when both requests carry the same time, the second application
  is a no-op. (The \<open>updatedAt\<close> that the schema's \<open>timestamps\<close> option keeps is
  not a field of the message record here; every save renews it.)
\<close>

theorem webhook_replay_is_single_later_application:
  "webhook_route e2 wr (snd (webhook_route e1 wr st)) = webhook_route e2 wr st \<and>
   (env_now e1 = env_now e2 \<or> (wh_status wr \<noteq> ''sent'' \<and> wh_status wr \<noteq> ''delivered'')
    \<longrightarrow> webhook_route e2 wr (snd (webhook_route e1 wr st)) = webhook_route e1 wr st) \<and>
   (wh_messageId wr = Some mid \<and> map_of (messages st) mid = Some m \<and> wh_status wr = ''delivered''
    \<longrightarrow> map_option (\<lambda>m'. deliveredAt (delivery m'))
          (map_of (messages (snd (webhook_route e2 wr (snd (webhook_route e1 wr st))))) mid)
        = Some (Some (env_now e2))) \<and>
   (wh_messageId wr = Some mid \<and> map_of (messages st) mid = Some m \<and> wh_status wr = ''sent''
    \<longrightarrow> map_option (\<lambda>m'. sentAt (delivery m'))
          (map_of (messages (snd (webhook_route e2 wr (snd (webhook_route e1 wr st))))) mid)
        = Some (Some (env_now e2))) \<and>
   (wh_messageId wr = Some mid \<and> parse_status (wh_status wr) = Some s \<and>
    map_of (messages (snd (webhook_route e1 wr st))) mid = Some m1
    \<longrightarrow> webhook_route e2 wr (snd (webhook_route e1 wr st)) =
          (fst (webhook_route e1 wr st),
           (snd (webhook_route e1 wr st))
             \<lparr>messages := AList.update mid (restamp s (env_now e2) m1)
                            (messages (snd (webhook_route e1 wr st)))\<rparr>))"
proof (intro conjI impI)
  show "webhook_route e2 wr (snd (webhook_route e1 wr st)) = webhook_route e2 wr st"
    by (rule webhook_route_replay)
next
  assume "env_now e1 = env_now e2 \<or> (wh_status wr \<noteq> ''sent'' \<and> wh_status wr \<noteq> ''delivered'')"
  then have "webhook_route e2 wr st = webhook_route e1 wr st"
    by (rule webhook_route_time)
  then show "webhook_route e2 wr (snd (webhook_route e1 wr st)) = webhook_route e1 wr st"
    by (simp add: webhook_route_replay)
next
  assume a: "wh_messageId wr = Some mid \<and> map_of (messages st) mid = Some m \<and> wh_status wr = ''delivered''"
  then have parsed: "parse_status (wh_status wr) = Some Delivered"
    by (simp add: parse_status_def)
  let ?r = "updateDeliveryStatus Delivered [FailureReason (wh_error wr)] (env_now e2) m"
  have "snd ?r = None" by (simp add: updateDeliveryStatus_saved)
  then have "snd (webhook_route e2 wr st) = st\<lparr>messages := AList.update mid (fst ?r) (messages st)\<rparr>"
    using a parsed by (simp add: webhook_route_def persist_def)
  then show "map_option (\<lambda>m'. deliveredAt (delivery m'))
          (map_of (messages (snd (webhook_route e2 wr (snd (webhook_route e1 wr st))))) mid)
        = Some (Some (env_now e2))"
    by (simp add: webhook_route_replay update_conv' updateDeliveryStatus_fst object_assign_keeps)
next
  assume a: "wh_messageId wr = Some mid \<and> map_of (messages st) mid = Some m \<and> wh_status wr = ''sent''"
  then have parsed: "parse_status (wh_status wr) = Some Sent"
    by (simp add: parse_status_def)
  let ?r = "updateDeliveryStatus Sent [FailureReason (wh_error wr)] (env_now e2) m"
  have "snd ?r = None" by (simp add: updateDeliveryStatus_saved)
  then have "snd (webhook_route e2 wr st) = st\<lparr>messages := AList.update mid (fst ?r) (messages st)\<rparr>"
    using a parsed by (simp add: webhook_route_def persist_def)
  then show "map_option (\<lambda>m'. sentAt (delivery m'))
          (map_of (messages (snd (webhook_route e2 wr (snd (webhook_route e1 wr st))))) mid)
        = Some (Some (env_now e2))"
    by (simp add: webhook_route_replay update_conv' updateDeliveryStatus_fst object_assign_keeps)
next
  assume a: "wh_messageId wr = Some mid \<and> parse_status (wh_status wr) = Some s \<and>
    map_of (messages (snd (webhook_route e1 wr st))) mid = Some m1"
  then have w: "wh_messageId wr = Some mid" and s: "parse_status (wh_status wr) = Some s"
    and m1: "map_of (messages (snd (webhook_route e1 wr st))) mid = Some m1"
    by simp_all
  show "webhook_route e2 wr (snd (webhook_route e1 wr st)) =
          (fst (webhook_route e1 wr st),
           (snd (webhook_route e1 wr st))
             \<lparr>messages := AList.update mid (restamp s (env_now e2) m1)
                            (messages (snd (webhook_route e1 wr st)))\<rparr>)"
    by (rule webhook_route_restamps [OF w s m1])
qed

theorem webhook_replay_is_single_later_application_witness:
  "webhook_route (example_env 2000 echo_backend) (webhook_for 1 ''failed'')
     (snd (webhook_route (example_env 1000 echo_backend) (webhook_for 1 ''failed'') example_db))
   = webhook_route (example_env 1000 echo_backend) (webhook_for 1 ''failed'') example_db \<and>
   map_option (\<lambda>m'. deliveredAt (delivery m'))
     (map_of (messages (snd (webhook_route (example_env 2000 echo_backend) (webhook_for 1 ''delivered'')
        (snd (webhook_route (example_env 1000 echo_backend) (webhook_for 1 ''delivered'') example_db))))) 1)
   = Some (Some 2000) \<and>
   map_option (\<lambda>m'. sentAt (delivery m'))
     (map_of (messages (snd (webhook_route (example_env 2000 echo_backend) (webhook_for 1 ''sent'')
        (snd (webhook_route (example_env 1000 echo_backend) (webhook_for 1 ''sent'') example_db))))) 1)
   = Some (Some 2000) \<and>
   map_of (messages (snd (webhook_route (example_env 1000 echo_backend) (webhook_for 1 ''delivered'')
        example_db))) 1
   = Some (example_message\<lparr>delivery := default_delivery\<lparr>status := Delivered,
                                                           deliveredAt := Some 1000\<rparr>\<rparr>) \<and>
   map_of (messages (snd (webhook_route (example_env 2000 echo_backend) (webhook_for 1 ''delivered'')
        (snd (webhook_route (example_env 1000 echo_backend) (webhook_for 1 ''delivered'') example_db))))) 1
   = Some (example_message\<lparr>delivery := default_delivery\<lparr>status := Delivered,
                                                           deliveredAt := Some 2000\<rparr>\<rparr>)"
proof -
  let ?e1 = "example_env 1000 echo_backend"
  let ?e2 = "example_env 2000 echo_backend"
  let ?first = "example_message\<lparr>delivery := default_delivery\<lparr>status := Delivered,
                                                              deliveredAt := Some 1000\<rparr>\<rparr>"
  have f: "wh_status (webhook_for 1 ''failed'') \<noteq> ''sent'' \<and>
           wh_status (webhook_for 1 ''failed'') \<noteq> ''delivered''"
    by (simp add: webhook_for_def)
  have d: "wh_messageId (webhook_for 1 ''delivered'') = Some 1 \<and>
           map_of (messages example_db) 1 = Some example_message \<and>
           wh_status (webhook_for 1 ''delivered'') = ''delivered''"
    by (simp add: webhook_for_def example_db_def)
  have se: "wh_messageId (webhook_for 1 ''sent'') = Some 1 \<and>
           map_of (messages example_db) 1 = Some example_message \<and>
           wh_status (webhook_for 1 ''sent'') = ''sent''"
    by (simp add: webhook_for_def example_db_def)
  have p: "parse_status (wh_status (webhook_for 1 ''delivered'')) = Some Delivered"
    by (simp add: webhook_for_def parse_status_def)
  have after_first: "map_of (messages (snd (webhook_route ?e1 (webhook_for 1 ''delivered'')
        example_db))) 1 = Some ?first"
    by code_simp
  have t: "env_now ?e2 = 2000"
    by (simp add: example_env_def)
  note t1 = webhook_replay_is_single_later_application
    [where ?e2.0 = ?e2 and wr = "webhook_for 1 ''failed''" and ?e1.0 = ?e1
       and st = example_db and mid = 1 and m = example_message and s = Failed and ?m1.0 = ?first]
  note t2 = webhook_replay_is_single_later_application
    [where ?e2.0 = ?e2 and wr = "webhook_for 1 ''delivered''" and ?e1.0 = ?e1
       and st = example_db and mid = 1 and m = example_message and s = Delivered and ?m1.0 = ?first]
  note t3 = webhook_replay_is_single_later_application
    [where ?e2.0 = ?e2 and wr = "webhook_for 1 ''sent''" and ?e1.0 = ?e1
       and st = example_db and mid = 1 and m = example_message and s = Sent and ?m1.0 = ?first]
  from t1 f have a: "webhook_route ?e2 (webhook_for 1 ''failed'')
     (snd (webhook_route ?e1 (webhook_for 1 ''failed'') example_db))
   = webhook_route ?e1 (webhook_for 1 ''failed'') example_db"
    by blast
  from t2 d have "map_option (\<lambda>m'. deliveredAt (delivery m'))
     (map_of (messages (snd (webhook_route ?e2 (webhook_for 1 ''delivered'')
        (snd (webhook_route ?e1 (webhook_for 1 ''delivered'') example_db))))) 1)
   = Some (Some (env_now ?e2))"
    by blast
  then have b: "map_option (\<lambda>m'. deliveredAt (delivery m'))
     (map_of (messages (snd (webhook_route ?e2 (webhook_for 1 ''delivered'')
        (snd (webhook_route ?e1 (webhook_for 1 ''delivered'') example_db))))) 1)
   = Some (Some 2000)"
    by (simp only: t)
  from t3 se have "map_option (\<lambda>m'. sentAt (delivery m'))
     (map_of (messages (snd (webhook_route ?e2 (webhook_for 1 ''sent'')
        (snd (webhook_route ?e1 (webhook_for 1 ''sent'') example_db))))) 1)
   = Some (Some (env_now ?e2))"
    by blast
  then have c: "map_option (\<lambda>m'. sentAt (delivery m'))
     (map_of (messages (snd (webhook_route ?e2 (webhook_for 1 ''sent'')
        (snd (webhook_route ?e1 (webhook_for 1 ''sent'') example_db))))) 1)
   = Some (Some 2000)"
    by (simp only: t)
  from d p after_first have "wh_messageId (webhook_for 1 ''delivered'') = Some 1 \<and>
      parse_status (wh_status (webhook_for 1 ''delivered'')) = Some Delivered \<and>
      map_of (messages (snd (webhook_route ?e1 (webhook_for 1 ''delivered'') example_db))) 1
        = Some ?first"
    by simp
  with t2 have "webhook_route ?e2 (webhook_for 1 ''delivered'')
        (snd (webhook_route ?e1 (webhook_for 1 ''delivered'') example_db)) =
      (fst (webhook_route ?e1 (webhook_for 1 ''delivered'') example_db),
       (snd (webhook_route ?e1 (webhook_for 1 ''delivered'') example_db))
         \<lparr>messages := AList.update 1 (restamp Delivered (env_now ?e2) ?first)
            (messages (snd (webhook_route ?e1 (webhook_for 1 ''delivered'') example_db)))\<rparr>)"
    by blast
  then have "map_of (messages (snd (webhook_route ?e2 (webhook_for 1 ''delivered'')
        (snd (webhook_route ?e1 (webhook_for 1 ''delivered'') example_db))))) 1
      = Some (restamp Delivered (env_now ?e2) ?first)"
    by (simp add: update_conv')
  then have e: "map_of (messages (snd (webhook_route ?e2 (webhook_for 1 ''delivered'')
        (snd (webhook_route ?e1 (webhook_for 1 ''delivered'') example_db))))) 1
      = Some (example_message\<lparr>delivery := default_delivery\<lparr>status := Delivered,
                                                              deliveredAt := Some 2000\<rparr>\<rparr>)"
    by (simp add: t restamp_def)
  from a b c after_first e show ?thesis by blast
qed

text \<open>
  C3 as stated fails: \<open>delivered\<close> applied at time 1000 and again at time 2000
  leaves \<open>deliveredAt\<close> at 2000, not at 1000, and the database differs from the one
  after the first application.
\<close>

theorem webhook_replay_counterexample:
  "map_option (\<lambda>m'. deliveredAt (delivery m'))
     (map_of (messages (snd (webhook_route (example_env 1000 echo_backend) (webhook_for 1 ''delivered'')
        example_db))) 1)
   = Some (Some 1000) \<and>
   map_option (\<lambda>m'. deliveredAt (delivery m'))
     (map_of (messages (snd (webhook_route (example_env 2000 echo_backend) (webhook_for 1 ''delivered'')
        (snd (webhook_route (example_env 1000 echo_backend) (webhook_for 1 ''delivered'') example_db))))) 1)
   = Some (Some 2000) \<and>
   snd (webhook_route (example_env 2000 echo_backend) (webhook_for 1 ''delivered'')
        (snd (webhook_route (example_env 1000 echo_backend) (webhook_for 1 ''delivered'') example_db)))
   \<noteq> snd (webhook_route (example_env 1000 echo_backend) (webhook_for 1 ''delivered'') example_db)"
  by code_simp


section \<open>Phone numbers and the provider send\<close>

lemma twilioProvider_only_to:
  "twilioProvider (only_to (phoneNumber (recipient m)) backend) m cl = twilioProvider backend m cl"
  by (simp add: twilioProvider_def only_to_def request_to_def Let_def)

lemma bandwidthProvider_only_to:
  "bandwidthProvider (only_to (phoneNumber (recipient m)) backend) m cl = bandwidthProvider backend m cl"
  by (simp add: bandwidthProvider_def only_to_def request_to_def Let_def)

lemma messagebirdProvider_only_to:
  "messagebirdProvider (only_to (phoneNumber (recipient m)) backend) m cl = messagebirdProvider backend m cl"
  by (simp add: messagebirdProvider_def only_to_def request_to_def Let_def)

lemma sendMessage_only_to:
  "sendMessage (only_to (phoneNumber (recipient m)) backend) m cl = sendMessage backend m cl"
  by (simp add: sendMessage_def twilioProvider_only_to bandwidthProvider_only_to
      messagebirdProvider_only_to split: provider.splits option.splits)

lemma phone_without_plus_digits:
  assumes "validatePhoneNumber p" and "\<not> startsWith p ''+''"
  shows "list_all is_digit p"
  using assms by (auto simp add: validatePhoneNumber_def phone_regex_def Let_def split: list.splits)

text \<open>
  C9 (as amended): \<open>formatPhoneNumber\<close> rejects a value that does not match the
  E.164-like pattern; a matching value without a leading plus sign that is exactly 10
  characters long (then 10 digits) gets \<open>+1\<close> prepended; any other matching value
  without a leading plus sign gets \<open>+\<close> prepended; a matching value with a leading
  plus sign is returned unchanged. \<open>sendMessage\<close> does not call it: whatever the
  provider and the backend, the backend is only reached with a request addressed to
  \<open>recipient.phoneNumber\<close> as stored. A value that does not match the pattern is
  turned down earlier, by the schema, when the message is first saved.
\<close>

theorem formatPhoneNumber_cases_and_unformatted_send:
  "(\<not> validatePhoneNumber p \<longrightarrow> formatPhoneNumber p prov = Inl ''Invalid phone number format'') \<and>
   (validatePhoneNumber p \<and> \<not> startsWith p ''+'' \<and> length p = 10
      \<longrightarrow> formatPhoneNumber p prov = Inr (''+1'' @ p) \<and> list_all is_digit p) \<and>
   (validatePhoneNumber p \<and> \<not> startsWith p ''+'' \<and> length p \<noteq> 10
      \<longrightarrow> formatPhoneNumber p prov = Inr (''+'' @ p)) \<and>
   (validatePhoneNumber p \<and> startsWith p ''+'' \<longrightarrow> formatPhoneNumber p prov = Inr p) \<and>
   sendMessage backend m cl = sendMessage (only_to (phoneNumber (recipient m)) backend) m cl \<and>
   (\<not> validatePhoneNumber (phoneNumber (recipient m))
      \<longrightarrow> save_new mid m st = Inl ''Invalid phone number format'')"
proof (intro conjI impI)
  assume "\<not> validatePhoneNumber p"
  then show "formatPhoneNumber p prov = Inl ''Invalid phone number format''"
    by (simp add: formatPhoneNumber_def)
next
  assume a: "validatePhoneNumber p \<and> \<not> startsWith p ''+'' \<and> length p = 10"
  then show "formatPhoneNumber p prov = Inr (''+1'' @ p)"
    by (simp add: formatPhoneNumber_def)
  from a show "list_all is_digit p"
    by (simp add: phone_without_plus_digits)
next
  assume "validatePhoneNumber p \<and> \<not> startsWith p ''+'' \<and> length p \<noteq> 10"
  then show "formatPhoneNumber p prov = Inr (''+'' @ p)"
    by (simp add: formatPhoneNumber_def)
next
  assume "validatePhoneNumber p \<and> startsWith p ''+''"
  then show "formatPhoneNumber p prov = Inr p"
    by (simp add: formatPhoneNumber_def)
next
  show "sendMessage backend m cl = sendMessage (only_to (phoneNumber (recipient m)) backend) m cl"
    by (simp add: sendMessage_only_to)
next
  assume "\<not> validatePhoneNumber (phoneNumber (recipient m))"
  then show "save_new mid m st = Inl ''Invalid phone number format''"
    by (simp add: save_new_def validatePhoneNumber_def)
qed

theorem formatPhoneNumber_cases_and_unformatted_send_witness:
  "formatPhoneNumber ''555-1234'' Twilio = Inl ''Invalid phone number format'' \<and>
   formatPhoneNumber ''5551234567'' Twilio = Inr ''+15551234567'' \<and>
   formatPhoneNumber ''445551234567'' Twilio = Inr ''+445551234567'' \<and>
   formatPhoneNumber ''+15551234567'' Twilio = Inr ''+15551234567'' \<and>
   save_new 3 (example_message\<lparr>recipient := verified_recipient\<lparr>phoneNumber := ''555-1234''\<rparr>\<rparr>) example_db
     = Inl ''Invalid phone number format''"
proof -
  let ?m = "example_message\<lparr>recipient := verified_recipient\<lparr>phoneNumber := ''555-1234''\<rparr>\<rparr>"
  have h1: "\<not> validatePhoneNumber ''555-1234''" by code_simp
  have h2: "validatePhoneNumber ''5551234567'' \<and> \<not> startsWith ''5551234567'' ''+'' \<and>
            length ''5551234567'' = 10" by code_simp
  have h3: "validatePhoneNumber ''445551234567'' \<and> \<not> startsWith ''445551234567'' ''+'' \<and>
            length ''445551234567'' \<noteq> 10" by code_simp
  have h4: "validatePhoneNumber ''+15551234567'' \<and> startsWith ''+15551234567'' ''+''" by code_simp
  have h5: "\<not> validatePhoneNumber (phoneNumber (recipient ?m))" by code_simp
  from formatPhoneNumber_cases_and_unformatted_send [of "''555-1234''" Twilio echo_backend ?m example_client 3 example_db] h1 h5
  have r1: "formatPhoneNumber ''555-1234'' Twilio = Inl ''Invalid phone number format''"
    and r5: "save_new 3 ?m example_db = Inl ''Invalid phone number format''"
    by blast+
  from formatPhoneNumber_cases_and_unformatted_send [of "''5551234567''" Twilio echo_backend ?m example_client 3 example_db] h2
  have "formatPhoneNumber ''5551234567'' Twilio = Inr (''+1'' @ ''5551234567'')" by blast
  then have r2: "formatPhoneNumber ''5551234567'' Twilio = Inr ''+15551234567''" by simp
  from formatPhoneNumber_cases_and_unformatted_send [of "''445551234567''" Twilio echo_backend ?m example_client 3 example_db] h3
  have "formatPhoneNumber ''445551234567'' Twilio = Inr (''+'' @ ''445551234567'')" by blast
  then have r3: "formatPhoneNumber ''445551234567'' Twilio = Inr ''+445551234567''" by simp
  from formatPhoneNumber_cases_and_unformatted_send [of "''+15551234567''" Twilio echo_backend ?m example_client 3 example_db] h4
  have r4: "formatPhoneNumber ''+15551234567'' Twilio = Inr ''+15551234567''" by blast
  from r1 r2 r3 r4 r5 show ?thesis by blast
qed

text \<open>
  C9 as stated fails: for the stored number \<open>5551234567\<close> the normalised form is
  \<open>+15551234567\<close>, and the Twilio request is addressed to \<open>5551234567\<close> (the
  backend of the example returns the address it was given as the message id).
\<close>

theorem unformatted_send_counterexample:
  "phoneNumber (recipient example_message) = ''5551234567'' \<and>
   formatPhoneNumber ''5551234567'' Twilio = Inr ''+15551234567'' \<and>
   sendMessage echo_backend example_message example_client
     = Inr \<lparr>messageId = ''5551234567'', sr_response = [], sr_provider = ''twilio''\<rparr>"
  by code_simp

section \<open>A failed compliance check persists nothing\<close>

text \<open>
  C4: when the compliance evaluation of a send request does not pass, the send route
  answers with the rejection that carries the verdict's list of reasons (status 400, a
  response and not an error), and creates no message: the database is the one before the
  request. (On the template path the Template collaborator has counted the use by then;
  its counter is not part of the message collection.)
\<close>

theorem failed_compliance_is_rejection_without_persistence:
  assumes "req_valid rq"
    and "map_of (clients st) (req_clientId rq) = Some cl"
    and "canSendMessage cl"
    and "\<not> opted_out (messages st) (phoneNumber (req_recipient rq))"
    and "resolve_content e rq = Inr messageContent"
    and "\<not> passed (checkMessageCompliance (env_now e) (env_hour e) cl (req_recipient rq) messageContent)"
  shows "send_route e rq st =
     (Response 400 [(''message'', S ''Message failed compliance check''),
                    (''details'', L (details (checkMessageCompliance (env_now e) (env_hour e) cl
                                                (req_recipient rq) messageContent)))], st)"
proof -
  have "send_route e rq st =
      (let complianceResult =
             checkMessageCompliance (env_now e) (env_hour e) cl (req_recipient rq) messageContent
       in if \<not> passed complianceResult
          then (Response 400 [(''message'', S ''Message failed compliance check''),
                              (''details'', L (details complianceResult))], st)
          else
            let m = new_Message rq messageContent complianceResult
            in case save_new (env_new_id e) m st of
                 Inl err \<Rightarrow> (server_error, st)
               | Inr st1 \<Rightarrow>
                   if \<not> (case req_scheduling rq of None \<Rightarrow> False | Some sch \<Rightarrow> isScheduled sch)
                   then dispatch ''Message sent successfully''
                          [(''messageId'', N (env_new_id e))] ''Failed to send message''
                          e (env_new_id e) m (req_clientId rq) cl st1
                   else (Response 200 [(''message'', S ''Message scheduled successfully''),
                                       (''messageId'', N (env_new_id e)),
                                       (''status'', S ''scheduled''),
                                       (''scheduledFor'',
                                        D (case req_scheduling rq of None \<Rightarrow> None
                                           | Some sch \<Rightarrow> scheduledFor sch))], st1))"
    using assms(1-5) by (simp add: send_route_def)
  then show ?thesis
    using assms(6) by (simp add: Let_def)
qed

theorem failed_compliance_is_rejection_without_persistence_witness:
  "\<not> passed (checkMessageCompliance 100 10 example_client unverified_recipient (text_content ''Buy now'')) \<and>
   send_route (example_env 100 echo_backend) (example_send unverified_recipient ''Buy now'') example_db
     = (Response 400 [(''message'', S ''Message failed compliance check''),
                      (''details'', L [''Age verification required''])], example_db)"
proof -
  let ?e = "example_env 100 echo_backend"
  let ?rq = "example_send unverified_recipient ''Buy now''"
  have h1: "req_valid ?rq" by (simp add: example_send_def)
  have h2: "map_of (clients example_db) (req_clientId ?rq) = Some example_client"
    by (simp add: example_send_def example_db_def)
  have h3: "canSendMessage example_client" by code_simp
  have h4: "\<not> opted_out (messages example_db) (phoneNumber (req_recipient ?rq))" by code_simp
  have h5: "resolve_content ?e ?rq = Inr (text_content ''Buy now'')"
    by (simp add: resolve_content_def example_send_def text_content_def)
  have env: "env_now ?e = 100" "env_hour ?e = 10" "req_recipient ?rq = unverified_recipient"
    by (simp_all add: example_env_def example_send_def)
  have h6: "\<not> passed (checkMessageCompliance (env_now ?e) (env_hour ?e) example_client
               (req_recipient ?rq) (text_content ''Buy now''))"
    unfolding env by code_simp
  have d: "details (checkMessageCompliance 100 10 example_client unverified_recipient (text_content ''Buy now''))
     = [''Age verification required'']"
    by code_simp
  from failed_compliance_is_rejection_without_persistence [OF h1 h2 h3 h4 h5 h6]
  have "send_route ?e ?rq example_db =
     (Response 400 [(''message'', S ''Message failed compliance check''),
                    (''details'', L (details (checkMessageCompliance 100 10 example_client
                                                unverified_recipient (text_content ''Buy now''))))], example_db)"
    unfolding env .
  then show ?thesis using h6 unfolding env d by simp
qed

section \<open>What the routes do to a stored message\<close>

lemma evolves_refl: "evolves m m"
  by (simp add: evolves_def)

lemma evolves_trans: "evolves a b \<Longrightarrow> evolves b c \<Longrightarrow> evolves a c"
  by (auto simp add: evolves_def)

lemma retouched_refl: "retouched m m"
  by (simp add: retouched_def)

lemma retouched_trans: "retouched a b \<Longrightarrow> retouched b c \<Longrightarrow> retouched a c"
  by (simp add: retouched_def)

lemma retouched_update: "retouched m (fst (updateDeliveryStatus s ad now m))"
  by (simp add: retouched_def updateDeliveryStatus_compliance updateDeliveryStatus_counts)

lemma retouched_evolves: "retouched m m' \<Longrightarrow> evolves m m'"
  by (simp add: retouched_def evolves_def)

lemma evolves_update: "evolves m (fst (updateDeliveryStatus s ad now m))"
  by (rule retouched_evolves [OF retouched_update])

lemma evolves_increment: "canRetry m \<Longrightarrow> evolves m (fst (incrementRetry m))"
  by (simp add: evolves_def incrementRetry_def canRetry_def Let_def)

lemma fresh_sound: "fresh m \<Longrightarrow> sound m"
  by (auto simp add: fresh_def sound_def pre_save_def default_delivery_def split: if_splits)

lemma evolves_sound: "evolves m m' \<Longrightarrow> sound m \<Longrightarrow> sound m'"
  by (simp add: evolves_def sound_def)

lemma persist_effect:
  assumes "persist mid r st = Inr st'"
  shows "map_of (messages st') = (map_of (messages st))(mid \<mapsto> fst r)"
    and "messages st' = AList.update mid (fst r) (messages st)"
  using assms by (auto simp add: persist_def update_conv' split: option.splits)

lemma save_new_effect:
  assumes "save_new mid m st = Inr st'"
  shows "map_of (messages st) mid = None" and "pre_save m = None"
    and "messages st' = messages st @ [(mid, m)]"
    and "map_of (messages st') = (map_of (messages st))(mid \<mapsto> m)"
proof -
  show none: "map_of (messages st) mid = None" and "pre_save m = None"
    and app: "messages st' = messages st @ [(mid, m)]"
    using assms by (auto simp add: save_new_def split: if_splits option.splits)
  show "map_of (messages st') = (map_of (messages st))(mid \<mapsto> m)"
  proof
    fix j
    show "map_of (messages st') j = ((map_of (messages st))(mid \<mapsto> m)) j"
      using none by (cases "j = mid") (auto simp add: app map_add_def split: option.splits)
  qed
qed

lemma attempt_send_ok:
  assumes "attempt_send e mid m cid cl st = Inr (sr, st2)"
  shows "\<exists>m1. retouched m m1 \<and> map_of (messages st2) = (map_of (messages st))(mid \<mapsto> m1)"
proof (cases "sendMessage (env_backend e) m cl")
  case (Inl err)
  then show ?thesis using assms by (simp add: attempt_send_def)
next
  case (Inr sendResult)
  let ?r = "updateDeliveryStatus Sent
            [ProviderMessageId (Some (messageId sendResult)),
             ProviderResponse (Some (sr_response sendResult))] (env_now e) m"
  show ?thesis
  proof (cases "persist mid ?r st")
    case (Inl err)
    with Inr assms show ?thesis by (simp add: attempt_send_def Let_def)
  next
    case p: (Inr st1)
    then have "st2 = st1\<lparr>clients := AList.update cid (incrementMessageCount cl) (clients st1)\<rparr>"
      using Inr assms by (simp add: attempt_send_def Let_def)
    then have "map_of (messages st2) = (map_of (messages st))(mid \<mapsto> fst ?r)"
      using persist_effect(1) [OF p] by simp
    then show ?thesis using retouched_update by blast
  qed
qed

lemma attempt_send_failed:
  assumes "attempt_send e mid m cid cl st = Inl (err, m1, st2)"
  shows "retouched m m1 \<and> st2 = st"
  using assms retouched_update retouched_refl
  by (auto simp add: attempt_send_def Let_def split: sum.splits)

lemma dispatch_effect:
  assumes "map_of (messages st) mid = Some m"
  shows "\<exists>m1. retouched m m1 \<and>
           map_of (messages (snd (dispatch okm okf fm e mid m cid cl st)))
             = (map_of (messages st))(mid \<mapsto> m1)"
proof (cases "attempt_send e mid m cid cl st")
  case (Inr ok)
  obtain sr st2 where ok: "ok = (sr, st2)" by (cases ok)
  from attempt_send_ok [OF Inr [unfolded ok]]
  show ?thesis using Inr ok by (auto simp add: dispatch_def)
next
  case (Inl bad)
  obtain err m1 st2 where bad: "bad = (err, m1, st2)" by (cases bad)
  from attempt_send_failed [OF Inl [unfolded bad]]
  have ev: "retouched m m1" and same: "st2 = st" by simp_all
  show ?thesis
  proof (cases "record_failure e mid err m1 st")
    case failed: (Inl err2)
    have "map_of (messages st) = (map_of (messages st))(mid \<mapsto> m)"
      using assms by (simp add: map_upd_triv)
    then show ?thesis
      using Inl bad same failed retouched_refl by (auto simp add: dispatch_def)
  next
    case stored: (Inr st3)
    from persist_effect(1) [OF stored [unfolded record_failure_def]]
    have "map_of (messages st3) = (map_of (messages st))
            (mid \<mapsto> fst (updateDeliveryStatus Failed [FailureReason (Some err)] (env_now e) m1))" .
    moreover have "retouched m (fst (updateDeliveryStatus Failed [FailureReason (Some err)] (env_now e) m1))"
      using ev retouched_update retouched_trans by blast
    ultimately show ?thesis
      using Inl bad same stored by (auto simp add: dispatch_def)
  qed
qed

lemma changed_at_same: "messages st' = messages st \<Longrightarrow> changed_at k st st'"
  by (simp add: changed_at_def evolves_refl split: option.splits)

lemma changed_at_evolved:
  assumes "map_of (messages st) k = Some m" and "evolves m m1"
    and "map_of (messages st') = (map_of (messages st))(k \<mapsto> m1)"
  shows "changed_at k st st'"
  using assms by (simp add: changed_at_def)

lemma send_route_changed: "changed_at (env_new_id e) st (snd (send_route e rq st))"
proof (cases "\<exists>cl mc st1. map_of (clients st) (req_clientId rq) = Some cl \<and>
    resolve_content e rq = Inr mc \<and>
    passed (checkMessageCompliance (env_now e) (env_hour e) cl (req_recipient rq) mc) \<and>
    save_new (env_new_id e)
      (new_Message rq mc (checkMessageCompliance (env_now e) (env_hour e) cl (req_recipient rq) mc)) st
      = Inr st1 \<and> req_valid rq \<and> canSendMessage cl \<and>
    \<not> opted_out (messages st) (phoneNumber (req_recipient rq))")
  case False
  then have "snd (send_route e rq st) = st"
    by (auto simp add: send_route_def Let_def split: option.splits sum.splits)
  then show ?thesis by (simp add: changed_at_same)
next
  case True
  then obtain cl mc st1 where cl: "map_of (clients st) (req_clientId rq) = Some cl"
    and mc: "resolve_content e rq = Inr mc"
    and pass: "passed (checkMessageCompliance (env_now e) (env_hour e) cl (req_recipient rq) mc)"
    and saved: "save_new (env_new_id e)
      (new_Message rq mc (checkMessageCompliance (env_now e) (env_hour e) cl (req_recipient rq) mc)) st
      = Inr st1"
    and admitted: "req_valid rq" "canSendMessage cl"
      "\<not> opted_out (messages st) (phoneNumber (req_recipient rq))"
    by blast
  let ?m = "new_Message rq mc (checkMessageCompliance (env_now e) (env_hour e) cl (req_recipient rq) mc)"
  note sn = save_new_effect [OF saved]
  have fr: "fresh ?m"
    using sn(2) by (simp add: fresh_def new_Message_def)
  have st1: "map_of (messages st1) (env_new_id e) = Some ?m"
    by (simp add: sn(4))
  show ?thesis
  proof (cases "case req_scheduling rq of None \<Rightarrow> False | Some sch \<Rightarrow> isScheduled sch")
    case True
    then have "snd (send_route e rq st) = st1"
      using cl mc pass saved admitted by (simp add: send_route_def Let_def)
    then show ?thesis
      using sn fr evolves_refl by (auto simp add: changed_at_def)
  next
    case False
    then have r: "snd (send_route e rq st) =
        snd (dispatch ''Message sent successfully'' [(''messageId'', N (env_new_id e))]
               ''Failed to send message'' e (env_new_id e) ?m (req_clientId rq) cl st1)"
      using cl mc pass saved admitted by (simp add: send_route_def Let_def)
    from dispatch_effect [OF st1]
    obtain m1 where "retouched ?m m1"
      and "map_of (messages (snd (dispatch ''Message sent successfully''
               [(''messageId'', N (env_new_id e))] ''Failed to send message'' e (env_new_id e) ?m
               (req_clientId rq) cl st1))) = (map_of (messages st1))(env_new_id e \<mapsto> m1)"
      by blast
    then show ?thesis
      using sn fr retouched_evolves by (auto simp add: changed_at_def r)
  qed
qed

lemma find_message_Some: "find_message mid cid st = Some m \<Longrightarrow> map_of (messages st) mid = Some m"
  by (simp add: find_message_def split: option.splits if_splits)

lemma retry_route_changed: "changed_at mid st (snd (retry_route e mid cid st))"
proof (cases "\<exists>m cl st1. find_message mid cid st = Some m \<and> canRetry m \<and>
    map_of (clients st) cid = Some cl \<and> canSendMessage cl \<and>
    persist mid (incrementRetry m) st = Inr st1")
  case False
  then have "snd (retry_route e mid cid st) = st"
    by (auto simp add: retry_route_def Let_def split: option.splits sum.splits)
  then show ?thesis by (simp add: changed_at_same)
next
  case True
  then obtain m cl st1 where m: "find_message mid cid st = Some m" and can: "canRetry m"
    and cl: "map_of (clients st) cid = Some cl" "canSendMessage cl"
    and p: "persist mid (incrementRetry m) st = Inr st1"
    by blast
  let ?m = "fst (incrementRetry m)"
  have r: "snd (retry_route e mid cid st) =
      snd (dispatch ''Message retry successful'' [] ''Retry failed'' e mid ?m cid cl st1)"
    using m can cl p by (simp add: retry_route_def Let_def)
  have st1: "map_of (messages st1) = (map_of (messages st))(mid \<mapsto> ?m)"
    by (rule persist_effect(1) [OF p])
  then have "map_of (messages st1) mid = Some ?m" by simp
  from dispatch_effect [OF this]
  obtain m1 where ev: "retouched ?m m1"
    and eff: "map_of (messages (snd (dispatch ''Message retry successful'' [] ''Retry failed''
                 e mid ?m cid cl st1))) = (map_of (messages st1))(mid \<mapsto> m1)"
    by blast
  have "evolves m m1"
    using evolves_increment [OF can] retouched_evolves [OF ev] evolves_trans by blast
  moreover have "map_of (messages (snd (retry_route e mid cid st))) = (map_of (messages st))(mid \<mapsto> m1)"
    by (simp add: r eff st1)
  ultimately show ?thesis
    using find_message_Some [OF m] by (rule changed_at_evolved [rotated])
qed

lemma cancel_route_changed: "changed_at mid st (snd (cancel_route mid cid st))"
  by (auto simp add: cancel_route_def changed_at_def delete_conv' evolves_refl
      split: option.splits)

lemma webhook_route_changed:
  "changed_at (case wh_messageId wr of None \<Rightarrow> 0 | Some mid \<Rightarrow> mid) st (snd (webhook_route e wr st))"
proof (cases "\<exists>mid m s st1. wh_messageId wr = Some mid \<and> map_of (messages st) mid = Some m \<and>
    parse_status (wh_status wr) = Some s \<and>
    persist mid (updateDeliveryStatus s [FailureReason (wh_error wr)] (env_now e) m) st = Inr st1")
  case False
  then have "snd (webhook_route e wr st) = st"
    by (auto simp add: webhook_route_def split: option.splits sum.splits)
  then show ?thesis by (simp add: changed_at_same)
next
  case True
  then obtain mid m s st1 where w: "wh_messageId wr = Some mid"
    and m: "map_of (messages st) mid = Some m"
    and s: "parse_status (wh_status wr) = Some s"
    and p: "persist mid (updateDeliveryStatus s [FailureReason (wh_error wr)] (env_now e) m) st = Inr st1"
    by blast
  have "snd (webhook_route e wr st) = st1"
    using w m s p by (simp add: webhook_route_def)
  then have "map_of (messages (snd (webhook_route e wr st)))
      = (map_of (messages st))(mid \<mapsto> fst (updateDeliveryStatus s [FailureReason (wh_error wr)] (env_now e) m))"
    using persist_effect(1) [OF p] by simp
  with m evolves_update show ?thesis
    unfolding w option.case by (rule changed_at_evolved)
qed

lemma handle_changed: "\<exists>k. changed_at k st (snd (handle e rq st))"
proof (cases rq)
  case (Send x)
  have "changed_at (env_new_id e) st (snd (handle e rq st))"
    unfolding Send handle.simps by (rule send_route_changed)
  then show ?thesis ..
next
  case (Retry mid cid)
  have "changed_at mid st (snd (handle e rq st))"
    unfolding Retry handle.simps by (rule retry_route_changed)
  then show ?thesis ..
next
  case (Cancel mid cid)
  have "changed_at mid st (snd (handle e rq st))"
    unfolding Cancel handle.simps by (rule cancel_route_changed)
  then show ?thesis ..
next
  case (Webhook wr)
  have "changed_at (case wh_messageId wr of None \<Rightarrow> 0 | Some mid \<Rightarrow> mid) st (snd (handle e rq st))"
    unfolding Webhook handle.simps by (rule webhook_route_changed)
  then show ?thesis ..
qed

lemma handle_lookup:
  assumes "map_of (messages (snd (handle e rq st))) j = Some m1"
  shows "(case map_of (messages st) j of
            Some m \<Rightarrow> evolves m m1
          | None \<Rightarrow> (\<exists>m0. fresh m0 \<and> evolves m0 m1))"
proof -
  from handle_changed obtain k where k: "changed_at k st (snd (handle e rq st))" by blast
  show ?thesis
  proof (cases "j = k")
    case True
    then show ?thesis using k assms by (simp add: changed_at_def)
  next
    case False
    then have "map_of (messages st) j = Some m1"
      using k assms by (simp add: changed_at_def)
    then show ?thesis by (simp add: evolves_refl)
  qed
qed

lemma reachable_sound:
  "reachable st \<Longrightarrow> map_of (messages st) j = Some m \<Longrightarrow> sound m"
proof (induction arbitrary: j m rule: reachable.induct)
  case (start cs)
  then show ?case by simp
next
  case (request st e rq)
  from handle_lookup [OF request.prems]
  show ?case
    using request.IH fresh_sound evolves_sound
    by (cases "map_of (messages st) j") auto
next
  case (clients_changed st cs)
  then show ?case by simp
qed

lemma persist_keys:
  "persist mid r st = Inr st' \<Longrightarrow> distinct (map fst (messages st))
     \<Longrightarrow> distinct (map fst (messages st'))"
  by (auto simp add: persist_def distinct_update split: option.splits)

lemma attempt_send_keys:
  assumes "distinct (map fst (messages st))"
  shows "case attempt_send e mid m cid cl st of
           Inl (err, m1, st2) \<Rightarrow> distinct (map fst (messages st2))
         | Inr (sr, st2) \<Rightarrow> distinct (map fst (messages st2))"
  using assms
  by (auto simp add: attempt_send_def Let_def dest: persist_keys split: sum.splits)

lemma dispatch_keys:
  assumes "distinct (map fst (messages st))"
  shows "distinct (map fst (messages (snd (dispatch okm okf fm e mid m cid cl st))))"
  using attempt_send_keys [OF assms, of e mid m cid cl]
  by (auto simp add: dispatch_def record_failure_def dest: persist_keys split: sum.splits)

lemma save_new_keys:
  assumes "save_new mid m st = Inr st'" and "distinct (map fst (messages st))"
  shows "distinct (map fst (messages st'))"
proof -
  note sn = save_new_effect [OF assms(1)]
  have "mid \<notin> fst ` set (messages st)"
    using sn(1) by (simp add: map_of_eq_None_iff)
  then show ?thesis using assms(2) by (simp add: sn(3))
qed

lemma send_route_keys:
  assumes "distinct (map fst (messages st))"
  shows "distinct (map fst (messages (snd (send_route e rq st))))"
  using assms
  by (auto simp add: send_route_def Let_def dest!: save_new_keys intro: dispatch_keys
      split: option.splits sum.splits)

lemma retry_route_keys:
  assumes "distinct (map fst (messages st))"
  shows "distinct (map fst (messages (snd (retry_route e mid cid st))))"
  using assms
  by (auto simp add: retry_route_def Let_def dest!: persist_keys intro: dispatch_keys
      split: option.splits sum.splits)

lemma cancel_route_keys:
  assumes "distinct (map fst (messages st))"
  shows "distinct (map fst (messages (snd (cancel_route mid cid st))))"
  using assms
  by (auto simp add: cancel_route_def distinct_delete split: option.splits)

lemma webhook_route_keys:
  assumes "distinct (map fst (messages st))"
  shows "distinct (map fst (messages (snd (webhook_route e wr st))))"
  using assms
  by (auto simp add: webhook_route_def dest!: persist_keys split: option.splits sum.splits)

lemma reachable_keys: "reachable st \<Longrightarrow> distinct (map fst (messages st))"
proof (induction rule: reachable.induct)
  case (start cs)
  then show ?case by simp
next
  case (request st e rq)
  then show ?case
    by (cases rq)
       (simp_all add: send_route_keys retry_route_keys cancel_route_keys webhook_route_keys)
next
  case (clients_changed st cs)
  then show ?case by simp
qed

lemma reachable_member_sound:
  assumes "reachable st" and "(mid, m) \<in> set (messages st)"
  shows "sound m"
proof -
  have "map_of (messages st) mid = Some m"
    using reachable_keys [OF assms(1)] assms(2) by simp
  then show ?thesis by (rule reachable_sound [OF assms(1)])
qed


section \<open>Compliance flags and retry counts of stored messages\<close>




text \<open>
  C2: for every message the routes persist, \<open>retryCount\<close> never exceeds
  \<open>maxRetries\<close>. A retry is permitted only when the status is \<open>failed\<close> and
  \<open>retryCount < maxRetries\<close>: otherwise the retry route answers with its refusal
  (status 400) and changes nothing; a permitted retry of a client that may send stores
  \<open>retryCount + 1\<close>. Once \<open>retryCount = maxRetries\<close> every retry attempt is
  refused, and the message stays there: no request lowers the \<open>retryCount\<close> of a
  stored message or changes its \<open>maxRetries\<close>, so it is never retryable again.
\<close>

theorem retry_count_bounded_and_terminal:
  "(reachable st \<and> (mid, m) \<in> set (messages st)
      \<longrightarrow> retryCount (delivery m) \<le> maxRetries (delivery m)) \<and>
   canRetry m = (status (delivery m) = Failed \<and> retryCount (delivery m) < maxRetries (delivery m)) \<and>
   (find_message mid cid st = Some m \<and>
    \<not> (status (delivery m) = Failed \<and> retryCount (delivery m) < maxRetries (delivery m))
      \<longrightarrow> retry_route e mid cid st =
            (Response 400 [(''message'',
               S ''Message cannot be retried. Max retries exceeded or not in failed status.'')], st)) \<and>
   (find_message mid cid st = Some m \<and> retryCount (delivery m) = maxRetries (delivery m)
      \<longrightarrow> retry_route e mid cid st =
            (Response 400 [(''message'',
               S ''Message cannot be retried. Max retries exceeded or not in failed status.'')], st)) \<and>
   (find_message mid cid st = Some m \<and> canRetry m \<and> map_of (clients st) cid = Some cl \<and>
    canSendMessage cl
      \<longrightarrow> map_option (\<lambda>m'. retryCount (delivery m'))
            (map_of (messages (snd (retry_route e mid cid st))) mid)
          = Some (retryCount (delivery m) + 1)) \<and>
   (map_of (messages st) mid = Some m \<and> map_of (messages (snd (handle e rq st))) mid = Some m'
      \<longrightarrow> retryCount (delivery m) \<le> retryCount (delivery m') \<and>
          maxRetries (delivery m') = maxRetries (delivery m) \<and>
          (retryCount (delivery m) = maxRetries (delivery m)
             \<longrightarrow> retryCount (delivery m') = maxRetries (delivery m')))"
proof (intro conjI impI)
  assume "reachable st \<and> (mid, m) \<in> set (messages st)"
  then have "sound m" using reachable_member_sound by blast
  then show "retryCount (delivery m) \<le> maxRetries (delivery m)"
    by (simp add: sound_def)
next
  show "canRetry m = (status (delivery m) = Failed \<and> retryCount (delivery m) < maxRetries (delivery m))"
    by (auto simp add: canRetry_def)
next
  assume "find_message mid cid st = Some m \<and>
    \<not> (status (delivery m) = Failed \<and> retryCount (delivery m) < maxRetries (delivery m))"
  then have "find_message mid cid st = Some m" and "\<not> canRetry m"
    by (auto simp add: canRetry_def)
  then show "retry_route e mid cid st =
            (Response 400 [(''message'',
               S ''Message cannot be retried. Max retries exceeded or not in failed status.'')], st)"
    by (simp add: retry_route_def)
next
  assume "find_message mid cid st = Some m \<and> retryCount (delivery m) = maxRetries (delivery m)"
  then have "find_message mid cid st = Some m" and "\<not> canRetry m"
    by (auto simp add: canRetry_def)
  then show "retry_route e mid cid st =
            (Response 400 [(''message'',
               S ''Message cannot be retried. Max retries exceeded or not in failed status.'')], st)"
    by (simp add: retry_route_def)
next
  assume a: "find_message mid cid st = Some m \<and> canRetry m \<and> map_of (clients st) cid = Some cl \<and>
    canSendMessage cl"
  let ?m = "fst (incrementRetry m)"
  have "pre_save ?m = None"
    using a by (simp add: incrementRetry_def pre_save_def canRetry_def Let_def)
  then have p: "persist mid (incrementRetry m) st
      = Inr (st\<lparr>messages := AList.update mid ?m (messages st)\<rparr>)"
    by (simp add: persist_def incrementRetry_def Let_def)
  let ?st1 = "st\<lparr>messages := AList.update mid ?m (messages st)\<rparr>"
  have r: "snd (retry_route e mid cid st) =
      snd (dispatch ''Message retry successful'' [] ''Retry failed'' e mid ?m cid cl ?st1)"
    using a p by (simp add: retry_route_def Let_def)
  have "map_of (messages ?st1) mid = Some ?m"
    by (simp add: update_conv')
  from dispatch_effect [OF this]
  obtain m1 where "retouched ?m m1"
    and "map_of (messages (snd (dispatch ''Message retry successful'' [] ''Retry failed''
                 e mid ?m cid cl ?st1))) = (map_of (messages ?st1))(mid \<mapsto> m1)"
    by blast
  then show "map_option (\<lambda>m'. retryCount (delivery m'))
            (map_of (messages (snd (retry_route e mid cid st))) mid)
          = Some (retryCount (delivery m) + 1)"
    by (simp add: r retouched_def incrementRetry_def Let_def)
next
  assume a: "map_of (messages st) mid = Some m \<and> map_of (messages (snd (handle e rq st))) mid = Some m'"
  then have "map_of (messages (snd (handle e rq st))) mid = Some m'" by simp
  from handle_lookup [OF this] a have ev: "evolves m m'" by simp
  from ev show "retryCount (delivery m) \<le> retryCount (delivery m')"
    by (simp add: evolves_def)
  from ev show "maxRetries (delivery m') = maxRetries (delivery m)"
    by (simp add: evolves_def)
  show "retryCount (delivery m') = maxRetries (delivery m')"
    if "retryCount (delivery m) = maxRetries (delivery m)"
    using ev that by (auto simp add: evolves_def)
qed


theorem retry_count_bounded_and_terminal_witness:
  "reachable exhausted_db \<and> (3, failed_message 3) \<in> set (messages exhausted_db) \<and>
   retryCount (delivery (failed_message 3)) = maxRetries (delivery (failed_message 3)) \<and>
   retry_route (example_env 500 echo_backend) 3 7 exhausted_db =
     (Response 400 [(''message'',
        S ''Message cannot be retried. Max retries exceeded or not in failed status.'')], exhausted_db) \<and>
   find_message 3 7 sent_db = Some sent_message \<and>
   retry_route (example_env 500 echo_backend) 3 7 sent_db =
     (Response 400 [(''message'',
        S ''Message cannot be retried. Max retries exceeded or not in failed status.'')], sent_db) \<and>
   canRetry (failed_message 0) \<and>
   map_option (\<lambda>m'. retryCount (delivery m'))
     (map_of (messages (snd (retry_route (example_env 200 failing_backend) 3 7 failed_db))) 3) = Some 1 \<and>
   maxRetries (delivery (failed_message 1)) = maxRetries (delivery (failed_message 0)) \<and>
   map_of (messages (snd (handle (example_env 500 echo_backend) (Webhook (webhook_for 3 ''failed''))
                            exhausted_db))) 3
     = Some ((failed_message 3)\<lparr>delivery := (delivery (failed_message 3))\<lparr>failureReason := None\<rparr>\<rparr>) \<and>
   retryCount (delivery ((failed_message 3)\<lparr>delivery := (delivery (failed_message 3))\<lparr>failureReason := None\<rparr>\<rparr>))
     = maxRetries (delivery ((failed_message 3)\<lparr>delivery := (delivery (failed_message 3))\<lparr>failureReason := None\<rparr>\<rparr>))"
proof -
  have reach: "reachable exhausted_db"
    unfolding exhausted_db_def failed_db_def start_db_def
    by (intro reachable.request reachable.start)
  have ex: "messages exhausted_db = [(3, failed_message 3)]" by code_simp
  have fa: "messages failed_db = [(3, failed_message 0)]" by code_simp
  have se: "messages sent_db = [(3, sent_message)]" by code_simp
  have mem: "(3, failed_message 3) \<in> set (messages exhausted_db)"
    by (simp add: ex)
  have full: "retryCount (delivery (failed_message 3)) = maxRetries (delivery (failed_message 3))"
    by (simp add: failed_message_def default_delivery_def)
  have find_ex: "find_message 3 7 exhausted_db = Some (failed_message 3)"
    by (simp add: find_message_def ex failed_message_def example_message_def)
  have find_fa: "find_message 3 7 failed_db = Some (failed_message 0)"
    by (simp add: find_message_def fa failed_message_def example_message_def)
  have find_se: "find_message 3 7 sent_db = Some sent_message"
    by (simp add: find_message_def se sent_message_def example_message_def)
  have not_failed: "\<not> (status (delivery sent_message) = Failed \<and>
      retryCount (delivery sent_message) < maxRetries (delivery sent_message))"
    by (simp add: sent_message_def)
  have can0: "status (delivery (failed_message 0)) = Failed \<and>
      retryCount (delivery (failed_message 0)) < maxRetries (delivery (failed_message 0))"
    by (simp add: failed_message_def default_delivery_def)
  have cl: "map_of (clients failed_db) 7 = Some example_client" by code_simp
  have send: "canSendMessage example_client" by code_simp
  have before: "map_of (messages failed_db) 3 = Some (failed_message 0)"
    by (simp add: fa)
  have after: "map_of (messages (snd (handle (example_env 200 failing_backend) (Retry 3 7) failed_db))) 3
      = Some (failed_message 1)"
    by code_simp
  note t1 = retry_count_bounded_and_terminal
    [where st = exhausted_db and mid = 3 and m = "failed_message 3" and cid = 7
       and e = "example_env 500 echo_backend" and cl = example_client
       and rq = "Retry 3 7" and m' = "failed_message 3"]
  note t2 = retry_count_bounded_and_terminal
    [where st = sent_db and mid = 3 and m = sent_message and cid = 7
       and e = "example_env 500 echo_backend" and cl = example_client
       and rq = "Retry 3 7" and m' = sent_message]
  note t3 = retry_count_bounded_and_terminal
    [where st = failed_db and mid = 3 and m = "failed_message 0" and cid = 7
       and e = "example_env 200 failing_backend" and cl = example_client
       and rq = "Retry 3 7" and m' = "failed_message 1"]
  from t1 reach mem have bound: "retryCount (delivery (failed_message 3))
      \<le> maxRetries (delivery (failed_message 3))" by blast
  from t1 find_ex full have refused: "retry_route (example_env 500 echo_backend) 3 7 exhausted_db =
     (Response 400 [(''message'',
        S ''Message cannot be retried. Max retries exceeded or not in failed status.'')], exhausted_db)"
    by blast
  from t2 find_se not_failed have refused_sent: "retry_route (example_env 500 echo_backend) 3 7 sent_db =
     (Response 400 [(''message'',
        S ''Message cannot be retried. Max retries exceeded or not in failed status.'')], sent_db)"
    by blast
  from t3 can0 have can: "canRetry (failed_message 0)" by blast
  from t3 find_fa can cl send have "map_option (\<lambda>m'. retryCount (delivery m'))
     (map_of (messages (snd (retry_route (example_env 200 failing_backend) 3 7 failed_db))) 3)
     = Some (retryCount (delivery (failed_message 0)) + 1)" by blast
  then have one: "map_option (\<lambda>m'. retryCount (delivery m'))
     (map_of (messages (snd (retry_route (example_env 200 failing_backend) 3 7 failed_db))) 3) = Some 1"
    by (simp add: failed_message_def default_delivery_def)
  from before after have "map_of (messages failed_db) 3 = Some (failed_message 0) \<and>
      map_of (messages (snd (handle (example_env 200 failing_backend) (Retry 3 7) failed_db))) 3
        = Some (failed_message 1)" by simp
  with t3 have keep: "maxRetries (delivery (failed_message 1))
      = maxRetries (delivery (failed_message 0))" by blast
  let ?m' = "((failed_message 3)\<lparr>delivery := (delivery (failed_message 3))\<lparr>failureReason := None\<rparr>\<rparr>)"
  have hook: "map_of (messages (snd (handle (example_env 500 echo_backend)
      (Webhook (webhook_for 3 ''failed'')) exhausted_db))) 3 = Some ?m'"
    by code_simp
  note t4 = retry_count_bounded_and_terminal
    [where st = exhausted_db and mid = 3 and m = "failed_message 3" and cid = 7
       and e = "example_env 500 echo_backend" and cl = example_client
       and rq = "Webhook (webhook_for 3 ''failed'')" and m' = ?m']
  have "map_of (messages exhausted_db) 3 = Some (failed_message 3)"
    by (simp add: ex)
  with hook have "map_of (messages exhausted_db) 3 = Some (failed_message 3) \<and>
      map_of (messages (snd (handle (example_env 500 echo_backend)
        (Webhook (webhook_for 3 ''failed'')) exhausted_db))) 3 = Some ?m'" by simp
  with t4 full have still: "retryCount (delivery ?m') = maxRetries (delivery ?m')" by blast
  from reach mem full refused find_se refused_sent can one keep hook still show ?thesis by blast
qed

end
